theory Spec2Isabelle
  imports Complex_Main
begin

section \<open>Data model\<close>

text \<open>
  Values of Go's \<^verbatim>\<open>interface{}\<close> as \<^verbatim>\<open>encoding/json\<close> produces and
  consumes them: \<^verbatim>\<open>nil\<close>, \<^verbatim>\<open>bool\<close>, \<^verbatim>\<open>float64\<close>, \<^verbatim>\<open>string\<close>,
  \<^verbatim>\<open>[]interface{}\<close> and \<^verbatim>\<open>map[string]interface{}\<close>. A JSON number decodes to a
  finite \<^verbatim>\<open>float64\<close>, which is a rational; the code only compares it with zero.
  A Go map is a finite partial function from keys to values.
\<close>

datatype json =
    JNull
  | JBool bool
  | JNum rat
  | JStr string
  | JArr "json list"
  | JObj "string \<Rightarrow> json option"

type_synonym gomap = "string \<Rightarrow> json option"

text \<open>
  A Go \<^verbatim>\<open>error\<close>: \<^verbatim>\<open>errors.New(msg)\<close> and \<^verbatim>\<open>fmt.Errorf\<close> without \<^verbatim>\<open>%w\<close> give an
  \<open>ErrorString\<close>; \<^verbatim>\<open>fmt.Errorf(prefix + "%w", err)\<close> gives a \<open>WrapError\<close> that keeps
  the wrapped error.
\<close>

datatype error =
    ErrorString string
  | WrapError string error

text \<open>
  What a call does: it returns a value, returns a non-nil \<^verbatim>\<open>error\<close>, or panics
  (a failed single-value type assertion, a nil dereference).
\<close>

datatype 'a result = Return 'a | Fail error | Panic

text \<open>\<^verbatim>\<open>ApiResponse\<close> (api.go, lines 18-26); a nil \<^verbatim>\<open>Result\<close> map reads as the empty map.\<close>

record ApiResponse =
  JsonRPC :: string
  ID :: nat
  Error_Code :: nat
  Error_Message :: string
  Result :: gomap

text \<open>
  \<^verbatim>\<open>CryptoInfo\<close>, with the fields the callers use (\<^verbatim>\<open>ActionGetKeys\<close> builds one from
  \<^verbatim>\<open>EncryptedCryptoKey\<close>, \<^verbatim>\<open>PublicKey\<close>, \<^verbatim>\<open>Password\<close> and reads \<^verbatim>\<open>RawCryptoKey\<close>).
  A \<^verbatim>\<open>*CryptoInfo\<close> is a \<open>CryptoInfo option\<close>, \<open>None\<close> being \<^verbatim>\<open>nil\<close>.
\<close>

record CryptoInfo =
  EncryptedCryptoKey :: string
  PublicKey :: string
  Password :: string
  RawCryptoKey :: string

text \<open>
  The part of \<^verbatim>\<open>http.Response\<close> that \<^verbatim>\<open>DownloadFile\<close> reads. \<open>Body\<close> is the bytes the
  body stream yields; \<open>BodyErr\<close> is the read error that ends the stream after them
  (\<open>None\<close> when the stream ends with EOF).
\<close>

record Response =
  Status :: string
  StatusCode :: nat
  Body :: string
  BodyErr :: "error option"

text \<open>A \<^verbatim>\<open>crypto.KeyRing\<close> of gopenpgp is an opaque object, identified by a handle.\<close>

type_synonym KeyRing = nat

text \<open>An argument of a \<^verbatim>\<open>currentLogger\<close> call.\<close>

datatype logarg = S string | I int

text \<open>
  The calls a run makes on its collaborators, in order: the POST of \<^verbatim>\<open>ApiRequest\<close> with
  its body, \<^verbatim>\<open>GetCryptoInfo(token, disk, password)\<close>, \<^verbatim>\<open>currentLogger\<close>, \<^verbatim>\<open>http.Get\<close>,
  the deferred \<^verbatim>\<open>resp.Body.Close()\<close>, \<^verbatim>\<open>GetKeyRings(public, private, passphrase)\<close>,
  \<^verbatim>\<open>privateKeyRing.Decrypt(message, nil, 0)\<close> and \<^verbatim>\<open>privateKeyRing.ClearPrivateParams()\<close>.
\<close>

datatype event =
    ApiPost string
  | GetCryptoInfoCall string string string
  | Log string "logarg list"
  | HttpGet string
  | BodyClose
  | GetKeyRingsCall string string string
  | DecryptCall KeyRing string
  | ClearPrivateParams KeyRing

text \<open>
  The collaborators whose code is outside the three source files, as parameters of the
  model. \<open>jsonToReader\<close> gives the request body for a value, or \<open>None\<close> for its nil
  reader; \<open>client_Do\<close> is \<^verbatim>\<open>KtCustomClient().Do\<close> on a POST with that body and gives the
  response body; \<open>json_Decode\<close> is \<^verbatim>\<open>json.NewDecoder(response.Body).Decode\<close> into an
  \<^verbatim>\<open>ApiResponse\<close>. \<open>GetCryptoInfo\<close> is taken to return a non-nil \<^verbatim>\<open>*CryptoInfo\<close> when its
  error is nil. \<open>GetKeyRings\<close> returns the public and the private key ring. The
  destination \<^verbatim>\<open>io.Writer\<close> accepts \<open>writer_room\<close> more bytes (\<open>None\<close>: any number) and
  then fails with \<open>writer_err\<close>.
\<close>

record env =
  jsonToReader :: "json \<Rightarrow> string option"
  client_Do :: "string \<Rightarrow> error + string"
  json_Decode :: "string \<Rightarrow> error + ApiResponse"
  IsCryptoReady :: "CryptoInfo \<Rightarrow> bool"
  GetCryptoInfo :: "string \<Rightarrow> string \<Rightarrow> string \<Rightarrow> error + CryptoInfo"
  http_Get :: "string \<Rightarrow> error + Response"
  GetKeyRings :: "string \<Rightarrow> string \<Rightarrow> string \<Rightarrow> error + KeyRing \<times> KeyRing"
  Decrypt :: "KeyRing \<Rightarrow> string \<Rightarrow> error + string"
  writer_room :: "nat option"
  writer_err :: error

text \<open>
  The state a run changes: the store of Go maps (a map value is a reference, \<open>heap\<close>
  gives the contents at each address and \<open>next_ref\<close> is the next free address), the
  calls made so far, and the bytes written to the destination writer so far.
\<close>

record world =
  heap :: "nat \<Rightarrow> gomap"
  next_ref :: nat
  trace :: "event list"
  written :: string

section \<open>ApiRequest (pkg/api.go)\<close>

text \<open>A map literal or \<^verbatim>\<open>make(map[string]interface{})\<close>: a new map at a fresh address.\<close>

definition make_map :: "gomap \<Rightarrow> world \<Rightarrow> nat \<times> world" where
  "make_map m w =
     (next_ref w, w\<lparr>heap := (heap w)(next_ref w := m), next_ref := Suc (next_ref w)\<rparr>)"

text \<open>Lines 55-58: the value that is marshalled, with the params map as it is then.\<close>

definition rpc_request :: "string \<Rightarrow> gomap \<Rightarrow> json" where
  "rpc_request method params = JObj [''method'' \<mapsto> JStr method, ''params'' \<mapsto> JObj params]"

text \<open>
  Lines 60-88. \<^verbatim>\<open>url.Parse\<close> of the constant \<^verbatim>\<open>apiUrl\<close> succeeds. The POST is recorded
  when \<^verbatim>\<open>client.Do\<close> is called, whatever it returns.
\<close>

definition send_request :: "env \<Rightarrow> json \<Rightarrow> world \<Rightarrow> ApiResponse result \<times> world" where
  "send_request env request w =
     (case jsonToReader env request of
        None \<Rightarrow> (Fail (ErrorString ''failed to convert json to reader''), w)
      | Some jsonData \<Rightarrow>
          (let w1 = w\<lparr>trace := trace w @ [ApiPost jsonData]\<rparr> in
           case client_Do env jsonData of
             Inl err \<Rightarrow> (Fail err, w1)
           | Inr body \<Rightarrow>
               (case json_Decode env body of
                  Inl err \<Rightarrow> (Fail err, w1)
                | Inr responseData \<Rightarrow> (Return responseData, w1))))"

text \<open>
  Lines 46-58. \<open>params\<close> is the caller's map reference, \<open>None\<close> for a nil map. A nil map
  is replaced by a new empty one; the token is stored under \<^verbatim>\<open>"token"\<close> only when the
  key is absent, in the map the reference points to.
\<close>

definition ApiRequest ::
  "env \<Rightarrow> string \<Rightarrow> string \<Rightarrow> nat option \<Rightarrow> world \<Rightarrow> ApiResponse result \<times> world" where
  "ApiRequest env token method params w =
     (let (p, w1) = (case params of None \<Rightarrow> make_map Map.empty w | Some a \<Rightarrow> (a, w));
          w2 = (if heap w1 p ''token'' = None
                then w1\<lparr>heap := (heap w1)(p := (heap w1 p)(''token'' \<mapsto> JStr token))\<rparr>
                else w1)
      in send_request env (rpc_request method (heap w2 p)) w2)"

section \<open>DownloadFile\<close>

text \<open>Sequencing with Go's early return: an error or a panic ends the run.\<close>

definition and_then ::
  "'a result \<times> world \<Rightarrow> ('a \<Rightarrow> world \<Rightarrow> 'b result \<times> world) \<Rightarrow> 'b result \<times> world" where
  "and_then m f =
     (case m of
        (Return x, w) \<Rightarrow> f x w
      | (Fail err, w) \<Rightarrow> (Fail err, w)
      | (Panic, w) \<Rightarrow> (Panic, w))"

text \<open>A call of the package's \<^verbatim>\<open>currentLogger\<close>.\<close>

definition currentLogger :: "string \<Rightarrow> logarg list \<Rightarrow> world \<Rightarrow> world" where
  "currentLogger format args w = w\<lparr>trace := trace w @ [Log format args]\<rparr>"

text \<open>
  \<^verbatim>\<open>io.Copy(buf, resp.Body)\<close> into a \<^verbatim>\<open>bytes.Buffer\<close>: the buffer holds every byte the
  body yields; the count and the body's read error are returned.
\<close>

definition io_Copy_buffer :: "Response \<Rightarrow> string \<times> int \<times> error option" where
  "io_Copy_buffer resp = (Body resp, int (length (Body resp)), BodyErr resp)"

text \<open>
  \<^verbatim>\<open>io.Copy(writer, src)\<close> into the destination writer: the bytes of the source are
  written in order until the writer fails; the result is the number of bytes written
  and the writer's error, or else the source's read error.
\<close>

definition io_Copy_writer ::
  "env \<Rightarrow> string \<Rightarrow> error option \<Rightarrow> world \<Rightarrow> (int \<times> error option) \<times> world" where
  "io_Copy_writer env src srcErr w =
     (let n = (case writer_room env of None \<Rightarrow> length src | Some room \<Rightarrow> min room (length src))
      in ((int n, if n < length src then Some (writer_err env) else srcErr),
          w\<lparr>written := written w @ take n src\<rparr>))"

text \<open>
  Lines 160-185, on \<^verbatim>\<open>filesList.Result\<close>: the two-value assertion of \<^verbatim>\<open>count\<close> gives 0
  when the key is absent or not a number; the single-value assertions of the first list
  element and of its four fields panic when the value is absent or of another type.
  The result is \<open>(name, encrypted, mimeType, disk)\<close>.
\<close>

definition file_info :: "gomap \<Rightarrow> (string \<times> bool \<times> string \<times> string) result" where
  "file_info res =
     (let count = (case res ''count'' of Some (JNum c) \<Rightarrow> c | _ \<Rightarrow> 0) in
      if count = 0 then Fail (ErrorString ''file not found or you have not access to it'')
      else
        (case res ''list'' of
           None \<Rightarrow> Fail (ErrorString ''bad file get response'')
         | Some (JArr list) \<Rightarrow>
             (case list of
                [] \<Rightarrow> Fail (ErrorString ''file not found or you have not access to it'')
              | JObj fileInfo # _ \<Rightarrow>
                  (case (fileInfo ''name'', fileInfo ''encrypted'', fileInfo ''mime'', fileInfo ''disk'') of
                     (Some (JStr name), Some (JBool encrypted), Some (JStr mimeType), Some (JStr disk)) \<Rightarrow>
                       Return (name, encrypted, mimeType, disk)
                   | _ \<Rightarrow> Panic)
              | _ # _ \<Rightarrow> Panic)
         | Some _ \<Rightarrow> Fail (ErrorString ''files list parameter is not a list itself'')))"

text \<open>Lines 148-185: the check of the file id, the metadata request and its reading.\<close>

definition file_lookup ::
  "env \<Rightarrow> string \<Rightarrow> string \<Rightarrow> world \<Rightarrow> (string \<times> bool \<times> string \<times> string) result \<times> world" where
  "file_lookup env token fileId w =
     (if fileId = [] then (Fail (ErrorString ''file id is required''), w)
      else
        (let (params, w1) = make_map [''file'' \<mapsto> JStr fileId] w in
         and_then (ApiRequest env token ''files.getById'' (Some params) w1)
           (\<lambda>filesList w2.
              if Error_Code filesList \<noteq> 0 then (Fail (ErrorString (Error_Message filesList)), w2)
              else (file_info (Result filesList), w2))))"

text \<open>
  Lines 187-204: the crypto info the rest of the run uses. \<^verbatim>\<open>GetCryptoInfo\<close> is called
  with the disk of the file and the password, and its result replaces \<^verbatim>\<open>cryptoInfo\<close>.
\<close>

definition auth_check ::
  "env \<Rightarrow> string \<Rightarrow> string \<Rightarrow> bool \<Rightarrow> CryptoInfo option \<Rightarrow> world \<Rightarrow> CryptoInfo option result \<times> world" where
  "auth_check env token disk encrypted cryptoInfo w =
     (if encrypted \<and> (case cryptoInfo of None \<Rightarrow> True | Some ci \<Rightarrow> \<not> IsCryptoReady env ci) then
        (case cryptoInfo of
           None \<Rightarrow> (Fail (ErrorString ''file is encrypted and no any crypto cryptoInfo provided''), w)
         | Some ci \<Rightarrow>
             if Password ci = [] \<and> RawCryptoKey ci = [] then
               (Fail (ErrorString ''file is encrypted and no password or keys provided''), w)
             else if RawCryptoKey ci = [] then
               (let w1 = w\<lparr>trace := trace w @ [GetCryptoInfoCall token disk (Password ci)]\<rparr> in
                case GetCryptoInfo env token disk (Password ci) of
                  Inl err \<Rightarrow> (Fail (WrapError ''failed to get crypto info: '' err), w1)
                | Inr ci' \<Rightarrow> (Return (Some ci'), w1))
             else (Fail (ErrorString ''file is encrypted and no any data provided''), w))
      else (Return cryptoInfo, w))"

text \<open>Lines 206-219: the log line and the request of the content URL.\<close>

definition resolve_url ::
  "env \<Rightarrow> string \<Rightarrow> string \<Rightarrow> string \<Rightarrow> string \<Rightarrow> world \<Rightarrow> string result \<times> world" where
  "resolve_url env token fileId name mimeType w =
     (let w1 = currentLogger ''Downloading file %s (%s)'' [S name, S mimeType] w;
          (params, w2) = make_map [''file'' \<mapsto> JStr fileId] w1 in
      and_then (ApiRequest env token ''files.download'' (Some params) w2)
        (\<lambda>downloadRequest w3.
           if Error_Code downloadRequest \<noteq> 0 then
             (Fail (ErrorString (Error_Message downloadRequest)), w3)
           else
             (case Result downloadRequest ''url'' of
                Some (JStr fileUrl) \<Rightarrow> (Return fileUrl, w3)
              | _ \<Rightarrow> (Fail (ErrorString ''failed to get file url''), w3))))"

text \<open>
  Lines 231-257. The result is \<^verbatim>\<open>numBytes\<close> and the function's \<^verbatim>\<open>err\<close> as line 259
  reads them. In the encrypted branch \<^verbatim>\<open>:=\<close> at line 241 declares a new \<^verbatim>\<open>err\<close> in
  the block, which line 253 assigns: the function's \<^verbatim>\<open>err\<close> keeps the result of the
  copy into the buffer at line 236. Dereferencing a nil \<^verbatim>\<open>cryptoInfo\<close> at line 241
  panics.
\<close>

definition deliver ::
  "env \<Rightarrow> bool \<Rightarrow> CryptoInfo option \<Rightarrow> Response \<Rightarrow> world \<Rightarrow> (int \<times> error option) result \<times> world" where
  "deliver env encrypted cryptoInfo resp w =
     (if encrypted then
        (let w1 = currentLogger ''File is encrypted, downloading first'' [] w;
             (buf, numBytes, err) = io_Copy_buffer resp;
             w2 = currentLogger ''File downloaded. Decrypting now'' [] w1
         in case cryptoInfo of
              None \<Rightarrow> (Panic, w2)
            | Some ci \<Rightarrow>
                (let w3 = w2\<lparr>trace := trace w2 @
                            [GetKeyRingsCall (PublicKey ci) (RawCryptoKey ci) (Password ci)]\<rparr>
                 in case GetKeyRings env (PublicKey ci) (RawCryptoKey ci) (Password ci) of
                      Inl err' \<Rightarrow> (Fail err', w3)
                    | Inr (_, privateKeyRing) \<Rightarrow>
                        (let w4 = w3\<lparr>trace := trace w3 @ [DecryptCall privateKeyRing buf]\<rparr>
                         in case Decrypt env privateKeyRing buf of
                              Inl err' \<Rightarrow> (Fail err', w4)
                            | Inr decrypted \<Rightarrow>
                                (let w5 = w4\<lparr>trace := trace w4 @ [ClearPrivateParams privateKeyRing]\<rparr>;
                                     w6 = currentLogger ''File decrypted. Saving now'' [] w5;
                                     ((numBytes', err'), w7) = io_Copy_writer env decrypted None w6
                                 in (Return (numBytes', err), w7)))))
      else
        (let w1 = currentLogger ''File is not encrypted, downloading as-is'' [] w;
             ((numBytes, err), w2) = io_Copy_writer env (Body resp) (BodyErr resp) w1
         in (Return (numBytes, err), w2)))"

text \<open>Lines 227-264: the status check, the delivery, and the final check of \<^verbatim>\<open>err\<close>.\<close>

definition receive ::
  "env \<Rightarrow> string \<Rightarrow> bool \<Rightarrow> CryptoInfo option \<Rightarrow> Response \<Rightarrow> world \<Rightarrow> (string \<times> int) result \<times> world" where
  "receive env name encrypted cryptoInfo resp w =
     (if StatusCode resp \<noteq> 200 then
        (Fail (ErrorString (''bad response status code: '' @ Status resp)), w)
      else
        and_then (deliver env encrypted cryptoInfo resp w)
          (\<lambda>(numBytes, err) w1.
             case err of
               Some e \<Rightarrow> (Fail e, w1)
             | None \<Rightarrow>
                 (Return (name, numBytes),
                  currentLogger ''Download is done (%d bytes)'' [I numBytes] w1)))"

text \<open>
  Lines 221-225 and the deferred \<^verbatim>\<open>resp.Body.Close()\<close>, which runs when the function
  leaves after a successful \<^verbatim>\<open>http.Get\<close>.
\<close>

definition fetch ::
  "env \<Rightarrow> string \<Rightarrow> bool \<Rightarrow> CryptoInfo option \<Rightarrow> string \<Rightarrow> world \<Rightarrow> (string \<times> int) result \<times> world" where
  "fetch env name encrypted cryptoInfo fileUrl w =
     (let w1 = w\<lparr>trace := trace w @ [HttpGet fileUrl]\<rparr> in
      case http_Get env fileUrl of
        Inl err \<Rightarrow> (Fail err, w1)
      | Inr resp \<Rightarrow>
          (let (r, w2) = receive env name encrypted cryptoInfo resp w1
           in (r, w2\<lparr>trace := trace w2 @ [BodyClose]\<rparr>)))"

text \<open>
  \<^verbatim>\<open>DownloadFile(token, fileId, writer, cryptoInfo)\<close>: \<open>Return (fileName, numBytes)\<close> is
  the return with a nil error, \<open>Fail err\<close> the return of \<^verbatim>\<open>"", 0, err\<close>.
\<close>

definition DownloadFile ::
  "env \<Rightarrow> string \<Rightarrow> string \<Rightarrow> CryptoInfo option \<Rightarrow> world \<Rightarrow> (string \<times> int) result \<times> world" where
  "DownloadFile env token fileId cryptoInfo w =
     and_then (file_lookup env token fileId w)
       (\<lambda>(name, encrypted, mimeType, disk) w1.
          and_then (auth_check env token disk encrypted cryptoInfo w1)
            (\<lambda>cryptoInfo' w2.
               and_then (resolve_url env token fileId name mimeType w2)
                 (\<lambda>fileUrl w3. fetch env name encrypted cryptoInfo' fileUrl w3)))"

section \<open>Notions used in the statements\<close>

text \<open>
  The value \<^verbatim>\<open>ApiRequest\<close> marshals for a request of \<^verbatim>\<open>DownloadFile\<close>: the method, and
  the params map \<^verbatim>\<open>{"file": fileId}\<close> after the token has been stored in it.
\<close>

definition file_request :: "string \<Rightarrow> string \<Rightarrow> string \<Rightarrow> json" where
  "file_request method token fileId =
     JObj [''method'' \<mapsto> JStr method,
           ''params'' \<mapsto> JObj [''file'' \<mapsto> JStr fileId, ''token'' \<mapsto> JStr token]]"

text \<open>
  The calls a run can make before it fetches the content: the two requests of
  \<^verbatim>\<open>DownloadFile\<close>, the call of \<^verbatim>\<open>GetCryptoInfo\<close>, and log lines.
\<close>

definition setup_event :: "env \<Rightarrow> string \<Rightarrow> string \<Rightarrow> event \<Rightarrow> bool" where
  "setup_event env token fileId ev =
     (case ev of
        ApiPost b \<Rightarrow>
          jsonToReader env (file_request ''files.getById'' token fileId) = Some b \<or>
          jsonToReader env (file_request ''files.download'' token fileId) = Some b
      | GetCryptoInfoCall _ _ _ \<Rightarrow> True
      | Log _ _ \<Rightarrow> True
      | _ \<Rightarrow> False)"

section \<open>A concrete environment\<close>

text \<open>
  One file \<^verbatim>\<open>f1\<close> named \<^verbatim>\<open>report.pdf\<close> on disk \<^verbatim>\<open>d1\<close>, whose content URL yields the
  bytes \<^verbatim>\<open>abc\<close>; the passphrase \<^verbatim>\<open>secret\<close> unlocks the key of the disk, and \<^verbatim>\<open>abc\<close>
  decrypts to \<^verbatim>\<open>hello\<close>. The stand-in for \<^verbatim>\<open>jsonToReader\<close> writes method, file and
  token separated by colons. \<open>demo_env\<close> takes the result map of the metadata reply.
\<close>

definition w0 :: world where
  "w0 = \<lparr>heap = (\<lambda>_. Map.empty), next_ref = 0, trace = [], written = []\<rparr>"

definition demo_marshal :: "json \<Rightarrow> string option" where
  "demo_marshal j =
     (case j of
        JObj m \<Rightarrow>
          (case (m ''method'', m ''params'') of
             (Some (JStr method), Some (JObj p)) \<Rightarrow>
               (case (p ''file'', p ''token'') of
                  (Some (JStr f), Some (JStr t)) \<Rightarrow> Some (method @ '':'' @ f @ '':'' @ t)
                | _ \<Rightarrow> None)
           | _ \<Rightarrow> None)
      | _ \<Rightarrow> None)"

definition ok_reply :: "gomap \<Rightarrow> ApiResponse" where
  "ok_reply res = \<lparr>JsonRPC = ''2.0'', ID = 1, Error_Code = 0, Error_Message = [], Result = res\<rparr>"

definition file_meta :: "bool \<Rightarrow> gomap" where
  "file_meta enc =
     [''count'' \<mapsto> JNum 1,
      ''list'' \<mapsto> JArr [JObj [''id'' \<mapsto> JStr ''f1'', ''name'' \<mapsto> JStr ''report.pdf'',
                             ''encrypted'' \<mapsto> JBool enc, ''mime'' \<mapsto> JStr ''application/pdf'',
                             ''disk'' \<mapsto> JStr ''d1'', ''size'' \<mapsto> JNum 3]]]"

definition demo_key :: CryptoInfo where
  "demo_key = \<lparr>EncryptedCryptoKey = ''LOCKED'', PublicKey = ''PUB'',
               Password = ''secret'', RawCryptoKey = ''KEY''\<rparr>"

definition demo_env :: "gomap \<Rightarrow> env" where
  "demo_env meta =
     \<lparr>jsonToReader = demo_marshal,
      client_Do = Inr,
      json_Decode = (\<lambda>body.
        if body = ''files.getById:f1:tok'' then Inr (ok_reply meta)
        else if body = ''files.download:f1:tok'' then Inr (ok_reply [''url'' \<mapsto> JStr ''https://cdn/f1''])
        else Inl (ErrorString ''unexpected end of JSON input'')),
      IsCryptoReady = (\<lambda>ci. RawCryptoKey ci \<noteq> []),
      GetCryptoInfo = (\<lambda>token disk password.
        if password = ''secret'' then Inr demo_key
        else Inl (ErrorString ''failed to decrypt private key'')),
      http_Get = (\<lambda>url. Inr \<lparr>Status = ''200 OK'', StatusCode = 200, Body = ''abc'', BodyErr = None\<rparr>),
      GetKeyRings = (\<lambda>pub priv passphrase.
        if priv = ''KEY'' \<and> passphrase = ''secret'' then Inr (1, 2)
        else Inl (ErrorString ''failed to decrypt private key'')),
      Decrypt = (\<lambda>keyRing message.
        if keyRing = 2 \<and> message = ''abc'' then Inr ''hello''
        else Inl (ErrorString ''decrypt failed'')),
      writer_room = None,
      writer_err = ErrorString ''short write''\<rparr>"

text \<open>The same environment with a \<^verbatim>\<open>Decrypt\<close> that rejects every message.\<close>

definition failing_decrypt_env :: env where
  "failing_decrypt_env =
     (demo_env (file_meta True))\<lparr>Decrypt := (\<lambda>keyRing message. Inl (ErrorString ''decrypt failed''))\<rparr>"

text \<open>
  A crypto info that holds only a passphrase the key does not accept, a ready one with
  that passphrase, and one with neither passphrase nor key.
\<close>

definition wrong_pass :: CryptoInfo where
  "wrong_pass = \<lparr>EncryptedCryptoKey = [], PublicKey = [], Password = ''wrong'', RawCryptoKey = []\<rparr>"

definition wrong_pass_ready :: CryptoInfo where
  "wrong_pass_ready = demo_key\<lparr>Password := ''wrong''\<rparr>"

definition no_pass :: CryptoInfo where
  "no_pass = \<lparr>EncryptedCryptoKey = [], PublicKey = [], Password = [], RawCryptoKey = []\<rparr>"

text \<open>The same environment with an \<^verbatim>\<open>IsCryptoReady\<close> that is never true.\<close>

definition never_ready_env :: env where
  "never_ready_env = (demo_env (file_meta True))\<lparr>IsCryptoReady := (\<lambda>ci. False)\<rparr>"

text \<open>A store whose map at address 0 is \<^verbatim>\<open>{"file": "f1", "token": "mine"}\<close>.\<close>

definition w_mine :: world where
  "w_mine = \<lparr>heap = (\<lambda>_. Map.empty)(0 := [''file'' \<mapsto> JStr ''f1'', ''token'' \<mapsto> JStr ''mine'']),
             next_ref = 1, trace = [], written = []\<rparr>"

text \<open>
  The environment of the unencrypted file where only the content URL of the
  \<^verbatim>\<open>files.download\<close> reply yields \<^verbatim>\<open>abc\<close>; every other URL yields \<^verbatim>\<open>junk\<close>.
\<close>

definition two_url_env :: env where
  "two_url_env =
     (demo_env (file_meta False))\<lparr>http_Get := (\<lambda>url.
        if url = ''https://cdn/f1''
        then Inr \<lparr>Status = ''200 OK'', StatusCode = 200, Body = ''abc'', BodyErr = None\<rparr>
        else Inr \<lparr>Status = ''200 OK'', StatusCode = 200, Body = ''junk'', BodyErr = None\<rparr>)\<rparr>"

section \<open>Evaluation and stage lemmas\<close>

text \<open>
  The definitions to unfold when a run is evaluated in the concrete environment.
\<close>

lemmas demo_defs = demo_env_def demo_marshal_def ok_reply_def file_meta_def demo_key_def w0_def

lemmas model_defs = DownloadFile_def file_lookup_def auth_check_def resolve_url_def fetch_def receive_def
  deliver_def ApiRequest_def send_request_def make_map_def rpc_request_def and_then_def currentLogger_def
  io_Copy_buffer_def io_Copy_writer_def file_info_def file_request_def

text \<open>
  What each stage of \<^verbatim>\<open>DownloadFile\<close> leaves unchanged and which calls it adds to the
  trace. Nothing before the delivery writes to the destination writer.
\<close>

lemma send_request_world:
  assumes "send_request env request w = (r, w')"
  shows "heap w' = heap w" and "next_ref w' = next_ref w" and "written w' = written w"
  using assms by (auto simp: send_request_def Let_def split: option.splits sum.splits)

lemma send_request_trace:
  assumes "send_request env request w = (r, w')"
  shows "trace w' = trace w \<and> (\<forall>x. r \<noteq> Return x) \<or>
         (\<exists>b. jsonToReader env request = Some b \<and> trace w' = trace w @ [ApiPost b])"
  using assms by (auto simp: send_request_def Let_def split: option.splits sum.splits)

lemma ApiRequest_file:
  "\<exists>w'. ApiRequest env token method (Some (next_ref w))
          (w\<lparr>heap := (heap w)(next_ref w := [''file'' \<mapsto> JStr fileId]), next_ref := Suc (next_ref w)\<rparr>) =
        send_request env (file_request method token fileId) w' \<and>
        trace w' = trace w \<and> written w' = written w"
  apply (simp add: ApiRequest_def file_request_def rpc_request_def)
  apply (rule exI, rule conjI, rule refl)
  apply simp
  done

lemma file_lookup_world:
  assumes "file_lookup env token fileId w = (r, w1)"
  shows "written w1 = written w \<and>
        (trace w1 = trace w \<and> (\<forall>x. r \<noteq> Return x) \<or>
         (\<exists>b. jsonToReader env (file_request ''files.getById'' token fileId) = Some b \<and>
              trace w1 = trace w @ [ApiPost b]))"
proof (cases "fileId = []")
  case True
  with assms show ?thesis by (auto simp add: file_lookup_def)
next
  case False
  obtain wa where a: "ApiRequest env token ''files.getById'' (Some (next_ref w))
          (w\<lparr>heap := (heap w)(next_ref w := [''file'' \<mapsto> JStr fileId]), next_ref := Suc (next_ref w)\<rparr>) =
        send_request env (file_request ''files.getById'' token fileId) wa"
     and wa: "trace wa = trace w" "written wa = written w"
    using ApiRequest_file by blast
  obtain r' w' where s: "send_request env (file_request ''files.getById'' token fileId) wa = (r', w')"
    by (cases "send_request env (file_request ''files.getById'' token fileId) wa")
  from send_request_trace[OF s] send_request_world(3)[OF s] assms False s a wa show ?thesis
    by (auto simp: file_lookup_def make_map_def and_then_def split: result.splits if_splits)
qed

lemma file_lookup_Return:
  assumes "file_lookup env token fileId w = (Return x, w1)"
  shows "written w1 = written w \<and>
         (\<exists>b. jsonToReader env (file_request ''files.getById'' token fileId) = Some b \<and>
              trace w1 = trace w @ [ApiPost b])"
  using file_lookup_world[OF assms] by auto

lemma auth_check_world:
  assumes "auth_check env token disk encrypted cryptoInfo w = (r, w')"
  shows "written w' = written w \<and>
         (trace w' = trace w \<or>
          (\<exists>ci. cryptoInfo = Some ci \<and> trace w' = trace w @ [GetCryptoInfoCall token disk (Password ci)]))"
  using assms by (auto simp: auth_check_def Let_def split: if_splits option.splits sum.splits)

lemma resolve_url_world:
  assumes "resolve_url env token fileId name mimeType w = (r, w')"
  shows "written w' = written w \<and>
         (\<exists>l. (trace w' = trace w @ [l] \<and> (\<forall>x. r \<noteq> Return x) \<or>
          (\<exists>b. jsonToReader env (file_request ''files.download'' token fileId) = Some b \<and>
              trace w' = trace w @ [l, ApiPost b])) \<and> l = Log ''Downloading file %s (%s)'' [S name, S mimeType])"
proof -
  let ?w1 = "currentLogger ''Downloading file %s (%s)'' [S name, S mimeType] w"
  obtain wa where a: "ApiRequest env token ''files.download'' (Some (next_ref ?w1))
          (?w1\<lparr>heap := (heap ?w1)(next_ref ?w1 := [''file'' \<mapsto> JStr fileId]), next_ref := Suc (next_ref ?w1)\<rparr>) =
        send_request env (file_request ''files.download'' token fileId) wa"
     and wa: "trace wa = trace ?w1" "written wa = written ?w1"
    using ApiRequest_file by blast
  obtain r' w'' where s: "send_request env (file_request ''files.download'' token fileId) wa = (r', w'')"
    by (cases "send_request env (file_request ''files.download'' token fileId) wa")
  from send_request_trace[OF s] send_request_world(3)[OF s] assms s a wa show ?thesis
    by (auto simp: resolve_url_def make_map_def and_then_def Let_def currentLogger_def
        split: result.splits if_splits option.splits json.splits)
qed

lemma deliver_encrypted:
  assumes "deliver env True cryptoInfo resp w = (r, w')"
  shows "\<exists>es. trace w' = trace w @ es \<and>
           (\<forall>b. ApiPost b \<notin> set es) \<and> (\<forall>u. HttpGet u \<notin> set es) \<and>
           (\<forall>keyRing message. DecryptCall keyRing message \<in> set es \<longrightarrow> message = Body resp) \<and>
           (\<forall>keyRing message err. DecryptCall keyRing message \<in> set es \<and> Decrypt env keyRing message = Inl err \<longrightarrow>
               r = Fail err \<and> written w' = written w) \<and>
           (written w' \<noteq> written w \<longrightarrow>
              (\<exists>keyRing message plain. DecryptCall keyRing message \<in> set es \<and> Decrypt env keyRing message = Inr plain))"
  using assms
  by (auto simp: deliver_def Let_def currentLogger_def io_Copy_buffer_def io_Copy_writer_def
      split: option.splits sum.splits prod.splits)

lemma receive_encrypted:
  assumes "receive env name True cryptoInfo resp w = (r, w')"
  shows "\<exists>es. trace w' = trace w @ es \<and>
           (\<forall>b. ApiPost b \<notin> set es) \<and> (\<forall>u. HttpGet u \<notin> set es) \<and>
           (\<forall>keyRing message. DecryptCall keyRing message \<in> set es \<longrightarrow> message = Body resp) \<and>
           (\<forall>keyRing message err. DecryptCall keyRing message \<in> set es \<and> Decrypt env keyRing message = Inl err \<longrightarrow>
               r = Fail err \<and> written w' = written w) \<and>
           (written w' \<noteq> written w \<longrightarrow>
              (\<exists>keyRing message plain. DecryptCall keyRing message \<in> set es \<and> Decrypt env keyRing message = Inr plain))"
proof (cases "StatusCode resp = 200")
  case False
  with assms show ?thesis by (simp add: receive_def)
next
  case True
  obtain r1 w1 where d: "deliver env True cryptoInfo resp w = (r1, w1)"
    by (cases "deliver env True cryptoInfo resp w")
  from deliver_encrypted[OF d] obtain es where es: "trace w1 = trace w @ es"
    "\<forall>b. ApiPost b \<notin> set es" "\<forall>u. HttpGet u \<notin> set es"
    "\<forall>keyRing message. DecryptCall keyRing message \<in> set es \<longrightarrow> message = Body resp"
    "\<forall>keyRing message err. DecryptCall keyRing message \<in> set es \<and> Decrypt env keyRing message = Inl err \<longrightarrow>
               r1 = Fail err \<and> written w1 = written w"
    "written w1 \<noteq> written w \<longrightarrow>
              (\<exists>keyRing message plain. DecryptCall keyRing message \<in> set es \<and> Decrypt env keyRing message = Inr plain)"
    by blast
  show ?thesis
  proof (cases r1)
    case (Return x)
    obtain numBytes err where x: "x = (numBytes, err)" by (cases x)
    show ?thesis
    proof (cases err)
      case None
      with assms True d Return x have "r = Return (name, numBytes)"
        and w': "w' = currentLogger ''Download is done (%d bytes)'' [I numBytes] w1"
        by (simp_all add: receive_def and_then_def)
      from w' es(1) have "trace w' = trace w @ (es @ [Log ''Download is done (%d bytes)'' [I numBytes]])"
        and "written w' = written w1"
        by (simp_all add: currentLogger_def)
      with es Return show ?thesis by (intro exI[of _ "es @ [Log ''Download is done (%d bytes)'' [I numBytes]]"]) auto
    next
      case (Some e)
      with assms True d Return x have "r = Fail e" "w' = w1"
        by (simp_all add: receive_def and_then_def)
      with es Return show ?thesis by (intro exI[of _ es]) auto
    qed
  next
    case (Fail e)
    with assms True d have "r = Fail e" "w' = w1" by (simp_all add: receive_def and_then_def)
    with es Fail show ?thesis by (intro exI[of _ es]) auto
  next
    case Panic
    with assms True d have "r = Panic" "w' = w1" by (simp_all add: receive_def and_then_def)
    with es Panic show ?thesis by (intro exI[of _ es]) auto
  qed
qed

lemma fetch_encrypted:
  assumes "fetch env name True cryptoInfo fileUrl w = (r, w')"
  shows "\<exists>es. trace w' = trace w @ HttpGet fileUrl # es \<and>
           (\<forall>b. ApiPost b \<notin> set es) \<and>
           (\<forall>keyRing message. DecryptCall keyRing message \<in> set es \<longrightarrow>
              (\<exists>resp. http_Get env fileUrl = Inr resp \<and> message = Body resp)) \<and>
           (\<forall>keyRing message err. DecryptCall keyRing message \<in> set es \<and> Decrypt env keyRing message = Inl err \<longrightarrow>
               r = Fail err \<and> written w' = written w) \<and>
           (written w' \<noteq> written w \<longrightarrow>
              (\<exists>keyRing message plain. DecryptCall keyRing message \<in> set es \<and> Decrypt env keyRing message = Inr plain))"
proof (cases "http_Get env fileUrl")
  case (Inl e)
  with assms show ?thesis by (auto simp: fetch_def Let_def)
next
  case (Inr resp)
  let ?w1 = "w\<lparr>trace := trace w @ [HttpGet fileUrl]\<rparr>"
  obtain r1 w2 where rc: "receive env name True cryptoInfo resp ?w1 = (r1, w2)"
    by (cases "receive env name True cryptoInfo resp ?w1")
  from receive_encrypted[OF rc] obtain es where es: "trace w2 = trace ?w1 @ es"
    "\<forall>b. ApiPost b \<notin> set es"
    "\<forall>keyRing message. DecryptCall keyRing message \<in> set es \<longrightarrow> message = Body resp"
    "\<forall>keyRing message err. DecryptCall keyRing message \<in> set es \<and> Decrypt env keyRing message = Inl err \<longrightarrow>
               r1 = Fail err \<and> written w2 = written ?w1"
    "written w2 \<noteq> written ?w1 \<longrightarrow>
              (\<exists>keyRing message plain. DecryptCall keyRing message \<in> set es \<and> Decrypt env keyRing message = Inr plain)"
    by blast
  from assms Inr rc have r: "r = r1" and w': "w' = w2\<lparr>trace := trace w2 @ [BodyClose]\<rparr>"
    by (simp_all add: fetch_def Let_def)
  from w' es(1) have "trace w' = trace w @ HttpGet fileUrl # (es @ [BodyClose])" "written w' = written w2"
    by simp_all
  with es r Inr show ?thesis by (intro exI[of _ "es @ [BodyClose]"]) auto
qed

lemma fetch_trace:
  assumes "fetch env name encrypted cryptoInfo fileUrl w = (r, w')"
  shows "\<exists>es. trace w' = trace w @ HttpGet fileUrl # es \<and> (\<forall>b. ApiPost b \<notin> set es)"
  using assms
  by (auto simp: fetch_def receive_def deliver_def and_then_def Let_def currentLogger_def
      io_Copy_buffer_def io_Copy_writer_def
      split: if_splits option.splits sum.splits prod.splits result.splits)

lemma fetch_unencrypted:
  assumes "fetch env name False cryptoInfo fileUrl w = (r, w')"
  shows "\<exists>es. trace w' = trace w @ HttpGet fileUrl # es \<and>
           (written w' = written w \<or>
            (\<exists>resp. http_Get env fileUrl = Inr resp \<and>
               written w' = written w @
                 take (case writer_room env of None \<Rightarrow> length (Body resp)
                       | Some room \<Rightarrow> min room (length (Body resp))) (Body resp))) \<and>
           (\<forall>fileName numBytes. r = Return (fileName, numBytes) \<longrightarrow>
              fileName = name \<and>
              (\<exists>resp. http_Get env fileUrl = Inr resp \<and> written w' = written w @ Body resp \<and>
                      numBytes = int (length (Body resp))))"
proof (cases "http_Get env fileUrl")
  case (Inl e)
  with assms show ?thesis by (auto simp: fetch_def Let_def)
next
  case (Inr resp)
  let ?w1 = "w\<lparr>trace := trace w @ [HttpGet fileUrl]\<rparr>"
  let ?n = "case writer_room env of None \<Rightarrow> length (Body resp)
            | Some room \<Rightarrow> min room (length (Body resp))"
  show ?thesis
  proof (cases "StatusCode resp = 200")
    case False
    with assms Inr show ?thesis by (auto simp: fetch_def receive_def Let_def)
  next
    case True
    let ?w2 = "?w1\<lparr>trace := trace ?w1 @ [Log ''File is not encrypted, downloading as-is'' []],
                    written := written w @ take ?n (Body resp)\<rparr>"
    have d: "deliver env False cryptoInfo resp ?w1 =
        (Return (int ?n, if ?n < length (Body resp) then Some (writer_err env) else BodyErr resp), ?w2)"
      by (simp add: deliver_def io_Copy_writer_def currentLogger_def Let_def)
    show ?thesis
    proof (cases "?n < length (Body resp)")
      case True
      with assms Inr \<open>StatusCode resp = 200\<close> d
      have "r = Fail (writer_err env)" "w' = ?w2\<lparr>trace := trace ?w2 @ [BodyClose]\<rparr>"
        by (simp_all add: fetch_def receive_def and_then_def Let_def)
      with Inr show ?thesis by simp
    next
      case False
      then have full: "take ?n (Body resp) = Body resp" "?n = length (Body resp)"
        by (simp_all split: option.splits)
      show ?thesis
      proof (cases "BodyErr resp")
        case None
        with assms Inr \<open>StatusCode resp = 200\<close> d False
        have "r = Return (name, int ?n)"
          "w' = (currentLogger ''Download is done (%d bytes)'' [I (int ?n)] ?w2)\<lparr>trace :=
                  trace (currentLogger ''Download is done (%d bytes)'' [I (int ?n)] ?w2) @ [BodyClose]\<rparr>"
          by (simp_all add: fetch_def receive_def and_then_def Let_def)
        with Inr full show ?thesis by (simp add: currentLogger_def)
      next
        case (Some e)
        with assms Inr \<open>StatusCode resp = 200\<close> d False
        have "r = Fail e" "w' = ?w2\<lparr>trace := trace ?w2 @ [BodyClose]\<rparr>"
          by (simp_all add: fetch_def receive_def and_then_def Let_def)
        with Inr show ?thesis by simp
      qed
    qed
  qed
qed

lemma fetch_keyring_failure:
  assumes "GetKeyRings env (PublicKey ci) (RawCryptoKey ci) (Password ci) = Inl err"
      and "fetch env name True (Some ci) fileUrl w = (r, w')"
  shows "written w' = written w \<and> (\<forall>x. r \<noteq> Return x) \<and>
         (\<exists>es. trace w' = trace w @ HttpGet fileUrl # es) \<and>
         (\<forall>resp. http_Get env fileUrl = Inr resp \<and> StatusCode resp = 200 \<longrightarrow> r = Fail err)"
  using assms
  by (auto simp: fetch_def receive_def deliver_def and_then_def Let_def currentLogger_def
      io_Copy_buffer_def split: if_splits sum.splits)

text \<open>
  A run either ends before the fetch, without a result, without writing, and with
  calls of the set-up kind only; or it reaches \<open>fetch\<close> after a lookup, an auth check and
  a URL request that all returned, and its outcome is the outcome of \<open>fetch\<close>.
\<close>

lemma DownloadFile_stages:
  assumes "DownloadFile env token fileId cryptoInfo w = (r, w')"
  shows "((\<forall>x. r \<noteq> Return x) \<and> written w' = written w \<and>
          (\<exists>es. trace w' = trace w @ es \<and> (\<forall>ev \<in> set es. setup_event env token fileId ev))) \<or>
         (\<exists>name encrypted mimeType disk w1 cryptoInfo' w2 fileUrl w3 es.
            file_lookup env token fileId w = (Return (name, encrypted, mimeType, disk), w1) \<and>
            auth_check env token disk encrypted cryptoInfo w1 = (Return cryptoInfo', w2) \<and>
            resolve_url env token fileId name mimeType w2 = (Return fileUrl, w3) \<and>
            fetch env name encrypted cryptoInfo' fileUrl w3 = (r, w') \<and>
            written w3 = written w \<and> trace w3 = trace w @ es \<and>
            (\<forall>ev \<in> set es. setup_event env token fileId ev))"
proof -
  obtain r1 w1 where l: "file_lookup env token fileId w = (r1, w1)"
    by (cases "file_lookup env token fileId w")
  note L = file_lookup_world[OF l]
  show ?thesis
  proof (cases r1)
    case (Return fi)
    obtain name encrypted mimeType disk where fi: "fi = (name, encrypted, mimeType, disk)"
      by (cases fi) auto
    obtain r2 w2 where a: "auth_check env token disk encrypted cryptoInfo w1 = (r2, w2)"
      by (cases "auth_check env token disk encrypted cryptoInfo w1")
    note A = auth_check_world[OF a]
    from L Return A obtain es2 where es2: "trace w2 = trace w @ es2"
      "\<forall>ev \<in> set es2. setup_event env token fileId ev" and wr2: "written w2 = written w"
      by (auto simp: setup_event_def)
    show ?thesis
    proof (cases r2)
      case (Return cryptoInfo')
      obtain r3 w3 where u: "resolve_url env token fileId name mimeType w2 = (r3, w3)"
        by (cases "resolve_url env token fileId name mimeType w2")
      note U = resolve_url_world[OF u]
      from U es2 obtain es3 where es3: "trace w3 = trace w @ es3"
        "\<forall>ev \<in> set es3. setup_event env token fileId ev"
        by (auto simp: setup_event_def)
      from U wr2 have wr3: "written w3 = written w" by simp
      show ?thesis
      proof (cases r3)
        case (Return fileUrl)
        from assms l \<open>r1 = Return fi\<close> fi a \<open>r2 = Return cryptoInfo'\<close> u Return
        have "fetch env name encrypted cryptoInfo' fileUrl w3 = (r, w')"
          by (simp add: DownloadFile_def and_then_def)
        with l \<open>r1 = Return fi\<close> fi a \<open>r2 = Return cryptoInfo'\<close> u Return es3 wr3
        show ?thesis by blast
      next
        case (Fail e)
        from assms l \<open>r1 = Return fi\<close> fi a \<open>r2 = Return cryptoInfo'\<close> u Fail
        have "r = Fail e" "w' = w3" by (simp_all add: DownloadFile_def and_then_def)
        with es3 wr3 show ?thesis by auto
      next
        case Panic
        from assms l \<open>r1 = Return fi\<close> fi a \<open>r2 = Return cryptoInfo'\<close> u Panic
        have "r = Panic" "w' = w3" by (simp_all add: DownloadFile_def and_then_def)
        with es3 wr3 show ?thesis by auto
      qed
    next
      case (Fail e)
      from assms l \<open>r1 = Return fi\<close> fi a Fail
      have "r = Fail e" "w' = w2" by (simp_all add: DownloadFile_def and_then_def)
      with es2 wr2 show ?thesis by auto
    next
      case Panic
      from assms l \<open>r1 = Return fi\<close> fi a Panic
      have "r = Panic" "w' = w2" by (simp_all add: DownloadFile_def and_then_def)
      with es2 wr2 show ?thesis by auto
    qed
  next
    case (Fail e)
    from assms l Fail have "r = Fail e" "w' = w1" by (simp_all add: DownloadFile_def and_then_def)
    with L Fail show ?thesis by (auto simp: setup_event_def)
  next
    case Panic
    from assms l Panic have "r = Panic" "w' = w1" by (simp_all add: DownloadFile_def and_then_def)
    with L Panic show ?thesis by (auto simp: setup_event_def)
  qed
qed

lemma DownloadFile_after_lookup:
  assumes "file_lookup env token fileId w = (Return (name, encrypted, mimeType, disk), w1)"
  shows "DownloadFile env token fileId cryptoInfo w =
         and_then (auth_check env token disk encrypted cryptoInfo w1)
           (\<lambda>cryptoInfo' w2.
              and_then (resolve_url env token fileId name mimeType w2)
                (\<lambda>fileUrl w3. fetch env name encrypted cryptoInfo' fileUrl w3))"
  using assms by (simp add: DownloadFile_def and_then_def)

lemma resolve_fetch_trace:
  assumes "and_then (resolve_url env token fileId name mimeType w)
             (\<lambda>fileUrl w3. fetch env name encrypted cryptoInfo fileUrl w3) = (r, w')"
  shows "\<exists>es. trace w' = trace w @ es"
proof -
  obtain r3 w3 where u: "resolve_url env token fileId name mimeType w = (r3, w3)"
    by (cases "resolve_url env token fileId name mimeType w")
  from resolve_url_world[OF u] obtain es3 where es3: "trace w3 = trace w @ es3" by auto
  show ?thesis
  proof (cases r3)
    case (Return fileUrl)
    with assms u have "fetch env name encrypted cryptoInfo fileUrl w3 = (r, w')"
      by (simp add: and_then_def)
    from fetch_trace[OF this] es3 show ?thesis by auto
  next
    case (Fail e)
    with assms u have "w' = w3" by (simp add: and_then_def)
    with es3 show ?thesis by simp
  next
    case Panic
    with assms u have "w' = w3" by (simp add: and_then_def)
    with es3 show ?thesis by simp
  qed
qed

text \<open>
  A URL request that returns has been answered by a reply whose \<^verbatim>\<open>url\<close> is the URL
  returned; the fetch calls \<^verbatim>\<open>http.Get\<close> once, on the URL it is given.
\<close>

lemma send_request_Return:
  assumes "send_request env request w = (Return x, w')"
  shows "\<exists>body raw. jsonToReader env request = Some body \<and> client_Do env body = Inr raw \<and>
           json_Decode env raw = Inr x"
  using assms by (auto simp: send_request_def Let_def split: option.splits sum.splits)

lemma resolve_url_Return:
  assumes "resolve_url env token fileId name mimeType w = (Return fileUrl, w')"
  shows "\<exists>body raw downloadRequest.
           jsonToReader env (file_request ''files.download'' token fileId) = Some body \<and>
           client_Do env body = Inr raw \<and> json_Decode env raw = Inr downloadRequest \<and>
           Error_Code downloadRequest = 0 \<and> Result downloadRequest ''url'' = Some (JStr fileUrl)"
proof -
  let ?w1 = "currentLogger ''Downloading file %s (%s)'' [S name, S mimeType] w"
  obtain wa where a: "ApiRequest env token ''files.download'' (Some (next_ref ?w1))
          (?w1\<lparr>heap := (heap ?w1)(next_ref ?w1 := [''file'' \<mapsto> JStr fileId]), next_ref := Suc (next_ref ?w1)\<rparr>) =
        send_request env (file_request ''files.download'' token fileId) wa"
    using ApiRequest_file by blast
  obtain r' w'' where s: "send_request env (file_request ''files.download'' token fileId) wa = (r', w'')"
    by (cases "send_request env (file_request ''files.download'' token fileId) wa")
  from assms a s obtain downloadRequest where r': "r' = Return downloadRequest"
    and c: "Error_Code downloadRequest = 0" and u: "Result downloadRequest ''url'' = Some (JStr fileUrl)"
    by (auto simp: resolve_url_def make_map_def and_then_def Let_def
        split: result.splits if_splits option.splits json.splits)
  from send_request_Return[OF s[unfolded r']] c u show ?thesis by blast
qed

lemma fetch_single_get:
  assumes "fetch env name encrypted cryptoInfo fileUrl w = (r, w')"
  shows "\<exists>es. trace w' = trace w @ HttpGet fileUrl # es \<and> (\<forall>u. HttpGet u \<notin> set es)"
  using assms
  by (auto simp: fetch_def receive_def deliver_def and_then_def Let_def currentLogger_def
      io_Copy_buffer_def io_Copy_writer_def
      split: if_splits option.splits sum.splits prod.splits result.splits)

section \<open>The claims\<close>

subsection \<open>C1\<close>

text \<open>
  \<^bold>\<open>C1\<close>. For a file whose metadata marks it encrypted, \<^verbatim>\<open>DownloadFile\<close> writes no byte
  to the destination writer unless decryption of the buffered ciphertext has succeeded.
  In every run, with \<open>es\<close> the calls the run makes: a call of \<^verbatim>\<open>Decrypt\<close> is on the
  bytes buffered from the content URL; if a call of \<^verbatim>\<open>Decrypt\<close> returns an error, the
  run returns that error and the bytes written are the same as before the run; and if
  the bytes written differ from those before the run, a call of \<^verbatim>\<open>Decrypt\<close> has
  returned a plaintext.
\<close>

theorem decrypt_failure_writes_nothing:
  assumes "file_lookup env token fileId w = (Return (name, True, mimeType, disk), w1)"
      and "DownloadFile env token fileId cryptoInfo w = (r, w')"
  shows "\<exists>es. trace w' = trace w @ es \<and>
           (\<forall>keyRing message. DecryptCall keyRing message \<in> set es \<longrightarrow>
              (\<exists>fileUrl resp. HttpGet fileUrl \<in> set es \<and> http_Get env fileUrl = Inr resp \<and> message = Body resp)) \<and>
           (\<forall>keyRing message err.
              DecryptCall keyRing message \<in> set es \<and> Decrypt env keyRing message = Inl err \<longrightarrow>
              r = Fail err \<and> written w' = written w) \<and>
           (written w' \<noteq> written w \<longrightarrow>
              (\<exists>keyRing message plain.
                 DecryptCall keyRing message \<in> set es \<and> Decrypt env keyRing message = Inr plain))"
  using DownloadFile_stages[OF assms(2)]
proof (elim disjE exE conjE)
  fix es
  assume "written w' = written w" "trace w' = trace w @ es" "\<forall>ev \<in> set es. setup_event env token fileId ev"
  then show ?thesis
    by (intro exI[of _ es]) (auto simp: setup_event_def)
next
  fix name' encrypted mimeType' disk' w1' cryptoInfo' w2 fileUrl w3 es
  assume l: "file_lookup env token fileId w = (Return (name', encrypted, mimeType', disk'), w1')"
    and f: "fetch env name' encrypted cryptoInfo' fileUrl w3 = (r, w')"
    and w3: "written w3 = written w" "trace w3 = trace w @ es"
    and es: "\<forall>ev \<in> set es. setup_event env token fileId ev"
  from l assms(1) have "encrypted" by simp
  with f have "fetch env name' True cryptoInfo' fileUrl w3 = (r, w')" by simp
  from fetch_encrypted[OF this] obtain es' where es': "trace w' = trace w3 @ HttpGet fileUrl # es'"
    "\<forall>keyRing message. DecryptCall keyRing message \<in> set es' \<longrightarrow>
              (\<exists>resp. http_Get env fileUrl = Inr resp \<and> message = Body resp)"
    "\<forall>keyRing message err. DecryptCall keyRing message \<in> set es' \<and> Decrypt env keyRing message = Inl err \<longrightarrow>
               r = Fail err \<and> written w' = written w3"
    "written w' \<noteq> written w3 \<longrightarrow>
              (\<exists>keyRing message plain. DecryptCall keyRing message \<in> set es' \<and> Decrypt env keyRing message = Inr plain)"
    by blast
  have nd: "\<And>k m. DecryptCall k m \<notin> set es" using es by (auto simp: setup_event_def)
  from es' w3 nd show ?thesis
    by (intro exI[of _ "es @ HttpGet fileUrl # es'"]) auto
qed

text \<open>
  The run on the encrypted file \<^verbatim>\<open>f1\<close> with a ready crypto info, where \<^verbatim>\<open>Decrypt\<close>
  rejects the message: the call is made, the error is returned, nothing is written.
\<close>

theorem decrypt_failure_writes_nothing_witness:
  "fst (file_lookup failing_decrypt_env ''tok'' ''f1'' w0) =
     Return (''report.pdf'', True, ''application/pdf'', ''d1'') \<and>
   DecryptCall 2 ''abc'' \<in> set (trace (snd (DownloadFile failing_decrypt_env ''tok'' ''f1'' (Some demo_key) w0))) \<and>
   Decrypt failing_decrypt_env 2 ''abc'' = Inl (ErrorString ''decrypt failed'') \<and>
   fst (DownloadFile failing_decrypt_env ''tok'' ''f1'' (Some demo_key) w0) = Fail (ErrorString ''decrypt failed'') \<and>
   written (snd (DownloadFile failing_decrypt_env ''tok'' ''f1'' (Some demo_key) w0)) = written w0"
proof -
  let ?run = "DownloadFile failing_decrypt_env ''tok'' ''f1'' (Some demo_key) w0"
  have l1: "fst (file_lookup failing_decrypt_env ''tok'' ''f1'' w0) =
      Return (''report.pdf'', True, ''application/pdf'', ''d1'')"
    by (simp add: model_defs demo_defs failing_decrypt_env_def)
  then have l: "file_lookup failing_decrypt_env ''tok'' ''f1'' w0 =
      (Return (''report.pdf'', True, ''application/pdf'', ''d1''),
       snd (file_lookup failing_decrypt_env ''tok'' ''f1'' w0))"
    by (simp add: prod_eq_iff)
  have r: "?run = (fst ?run, snd ?run)" by simp
  have d: "DecryptCall 2 ''abc'' \<in> set (trace (snd ?run))"
    by (simp add: model_defs demo_defs failing_decrypt_env_def)
  have e: "Decrypt failing_decrypt_env 2 ''abc'' = Inl (ErrorString ''decrypt failed'')"
    by (simp add: demo_defs failing_decrypt_env_def)
  from decrypt_failure_writes_nothing[OF l r] obtain es where es: "trace (snd ?run) = trace w0 @ es"
    "\<forall>keyRing message err.
        DecryptCall keyRing message \<in> set es \<and> Decrypt failing_decrypt_env keyRing message = Inl err \<longrightarrow>
        fst ?run = Fail err \<and> written (snd ?run) = written w0"
    by blast
  from es(1) d have "DecryptCall 2 ''abc'' \<in> set es" by (simp add: w0_def)
  with es(2) e have "fst ?run = Fail (ErrorString ''decrypt failed'') \<and> written (snd ?run) = written w0"
    by blast
  with l1 d e show ?thesis by simp
qed

subsection \<open>C2\<close>

text \<open>
  \<^bold>\<open>C2\<close>. Every request that \<^verbatim>\<open>DownloadFile\<close> issues through \<^verbatim>\<open>ApiRequest\<close> has as body
  what \<^verbatim>\<open>jsonToReader\<close> gives for the value
  \<^verbatim>\<open>{"method": method, "params": {"file": fileId, "token": token}}\<close>, the method being
  \<^verbatim>\<open>files.getById\<close> or \<^verbatim>\<open>files.download\<close>: the body is made of the method name, the
  access token and the file id, for every crypto info, so neither \<^verbatim>\<open>Password\<close> nor
  \<^verbatim>\<open>RawCryptoKey\<close> enters it. The statement is about the requests \<^verbatim>\<open>DownloadFile\<close>
  issues itself; \<^verbatim>\<open>GetCryptoInfo\<close> is a parameter, and its call is a call of its own
  kind in the trace.
\<close>

theorem request_bodies:
  assumes "DownloadFile env token fileId cryptoInfo w = (r, w')"
  shows "\<exists>es. trace w' = trace w @ es \<and>
           (\<forall>body. ApiPost body \<in> set es \<longrightarrow>
              (\<exists>method \<in> {''files.getById'', ''files.download''}.
                 jsonToReader env
                   (JObj [''method'' \<mapsto> JStr method,
                          ''params'' \<mapsto> JObj [''file'' \<mapsto> JStr fileId, ''token'' \<mapsto> JStr token]]) =
                 Some body))"
  using DownloadFile_stages[OF assms]
proof (elim disjE exE conjE)
  fix es
  assume "trace w' = trace w @ es" "\<forall>ev \<in> set es. setup_event env token fileId ev"
  then show ?thesis
    by (intro exI[of _ es]) (auto simp: setup_event_def file_request_def)
next
  fix name encrypted mimeType disk w1 cryptoInfo' w2 fileUrl w3 es
  assume f: "fetch env name encrypted cryptoInfo' fileUrl w3 = (r, w')"
    and w3: "trace w3 = trace w @ es"
    and es: "\<forall>ev \<in> set es. setup_event env token fileId ev"
  from fetch_trace[OF f] obtain es' where es': "trace w' = trace w3 @ HttpGet fileUrl # es'"
    "\<forall>b. ApiPost b \<notin> set es'" by blast
  from es have "\<And>b. ApiPost b \<in> set es \<Longrightarrow>
     jsonToReader env (file_request ''files.getById'' token fileId) = Some b \<or>
     jsonToReader env (file_request ''files.download'' token fileId) = Some b"
    by (auto simp: setup_event_def)
  with es' w3 show ?thesis
    by (intro exI[of _ "es @ HttpGet fileUrl # es'"]) (auto simp: file_request_def)
qed

text \<open>
  The run on the encrypted file \<^verbatim>\<open>f1\<close> with a ready crypto info posts the
  \<^verbatim>\<open>files.download\<close> request, whose body is the one of the statement.
\<close>

theorem request_bodies_witness:
  "ApiPost ''files.download:f1:tok'' \<in>
     set (trace (snd (DownloadFile (demo_env (file_meta True)) ''tok'' ''f1'' (Some demo_key) w0))) \<and>
   (\<exists>method \<in> {''files.getById'', ''files.download''}.
      jsonToReader (demo_env (file_meta True))
        (JObj [''method'' \<mapsto> JStr method,
               ''params'' \<mapsto> JObj [''file'' \<mapsto> JStr ''f1'', ''token'' \<mapsto> JStr ''tok'']]) =
      Some ''files.download:f1:tok'')"
proof -
  let ?run = "DownloadFile (demo_env (file_meta True)) ''tok'' ''f1'' (Some demo_key) w0"
  have r: "?run = (fst ?run, snd ?run)" by simp
  have p: "ApiPost ''files.download:f1:tok'' \<in> set (trace (snd ?run))"
    by (simp add: model_defs demo_defs)
  from request_bodies[OF r] obtain es where es: "trace (snd ?run) = trace w0 @ es"
    "\<forall>body. ApiPost body \<in> set es \<longrightarrow>
       (\<exists>method \<in> {''files.getById'', ''files.download''}.
          jsonToReader (demo_env (file_meta True))
            (JObj [''method'' \<mapsto> JStr method,
                   ''params'' \<mapsto> JObj [''file'' \<mapsto> JStr ''f1'', ''token'' \<mapsto> JStr ''tok'']]) =
          Some body)"
    by blast
  from es(1) p have "ApiPost ''files.download:f1:tok'' \<in> set es" by (simp add: w0_def)
  with es(2) p show ?thesis by blast
qed

subsection \<open>C3\<close>

text \<open>
  \<^bold>\<open>C3\<close>. The claim is that in the encrypted branch the private key ring is cleared with
  \<^verbatim>\<open>ClearPrivateParams\<close> before the function returns on every exit path, the path where
  \<^verbatim>\<open>Decrypt\<close> fails included. The source calls \<^verbatim>\<open>ClearPrivateParams\<close> at line 250, after
  the return of an error of \<^verbatim>\<open>Decrypt\<close> at lines 247-249. The run below is on the
  encrypted file \<^verbatim>\<open>f1\<close> with a ready crypto info and a \<^verbatim>\<open>Decrypt\<close> that fails: the key
  ring is built, \<^verbatim>\<open>Decrypt\<close> is called, the error is returned, and the calls of the
  run, listed in full, contain no \<^verbatim>\<open>ClearPrivateParams\<close>.
\<close>

theorem decrypt_failure_skips_clear:
  "fst (DownloadFile failing_decrypt_env ''tok'' ''f1'' (Some demo_key) w0) =
     Fail (ErrorString ''decrypt failed'') \<and>
   trace (snd (DownloadFile failing_decrypt_env ''tok'' ''f1'' (Some demo_key) w0)) =
     [ApiPost ''files.getById:f1:tok'',
      Log ''Downloading file %s (%s)'' [S ''report.pdf'', S ''application/pdf''],
      ApiPost ''files.download:f1:tok'',
      HttpGet ''https://cdn/f1'',
      Log ''File is encrypted, downloading first'' [],
      Log ''File downloaded. Decrypting now'' [],
      GetKeyRingsCall ''PUB'' ''KEY'' ''secret'',
      DecryptCall 2 ''abc'',
      BodyClose]"
  by (simp add: model_defs demo_defs failing_decrypt_env_def)

subsection \<open>C4\<close>

text \<open>
  \<^bold>\<open>C4\<close>. When the file is marked encrypted and the crypto info is nil or not ready,
  \<^verbatim>\<open>DownloadFile\<close> decides in this order. A nil crypto info: the error "file is
  encrypted and no any crypto cryptoInfo provided", at once. Password and raw key both
  empty: the error "file is encrypted and no password or keys provided". Raw key empty
  and password not: \<^verbatim>\<open>GetCryptoInfo\<close> is called with the token, the disk of the file
  and the password, as the next call after the lookup, and when it fails its error is
  returned, wrapped by "failed to get crypto info: ", with no further call and nothing
  written. Any other combination: the error "file is encrypted and no any data
  provided". In the three immediate failures the state is the one the lookup left.
\<close>

theorem auth_check_order:
  assumes "file_lookup env token fileId w = (Return (name, True, mimeType, disk), w1)"
      and "case cryptoInfo of None \<Rightarrow> True | Some ci \<Rightarrow> \<not> IsCryptoReady env ci"
      and "DownloadFile env token fileId cryptoInfo w = (r, w')"
  shows "(cryptoInfo = None \<longrightarrow>
            r = Fail (ErrorString ''file is encrypted and no any crypto cryptoInfo provided'') \<and> w' = w1) \<and>
         (\<forall>ci. cryptoInfo = Some ci \<longrightarrow>
            (if Password ci = [] \<and> RawCryptoKey ci = [] then
               r = Fail (ErrorString ''file is encrypted and no password or keys provided'') \<and> w' = w1
             else if RawCryptoKey ci = [] then
               (\<exists>es. trace w' = trace w1 @ GetCryptoInfoCall token disk (Password ci) # es) \<and>
               (\<forall>err. GetCryptoInfo env token disk (Password ci) = Inl err \<longrightarrow>
                  r = Fail (WrapError ''failed to get crypto info: '' err) \<and>
                  trace w' = trace w1 @ [GetCryptoInfoCall token disk (Password ci)] \<and>
                  written w' = written w)
             else
               r = Fail (ErrorString ''file is encrypted and no any data provided'') \<and> w' = w1))"
proof (cases cryptoInfo)
  case None
  with assms(3) show ?thesis
    by (simp add: DownloadFile_after_lookup[OF assms(1)] auth_check_def and_then_def)
next
  case (Some ci)
  with assms(2) have nr: "\<not> IsCryptoReady env ci" by simp
  note wr = file_lookup_Return[OF assms(1)]
  let ?w2 = "w1\<lparr>trace := trace w1 @ [GetCryptoInfoCall token disk (Password ci)]\<rparr>"
  consider (a) "Password ci = [] \<and> RawCryptoKey ci = []"
    | (b) "\<not> (Password ci = [] \<and> RawCryptoKey ci = [])" "RawCryptoKey ci = []"
    | (c) "RawCryptoKey ci \<noteq> []" by blast
  then show ?thesis
  proof cases
    case a
    with assms(3) Some nr show ?thesis
      by (simp add: DownloadFile_after_lookup[OF assms(1)] auth_check_def and_then_def)
  next
    case c
    with assms(3) Some nr show ?thesis
      by (simp add: DownloadFile_after_lookup[OF assms(1)] auth_check_def and_then_def)
  next
    case b
    show ?thesis
    proof (cases "GetCryptoInfo env token disk (Password ci)")
      case (Inl err)
      with assms(3) Some nr b wr show ?thesis
        by (auto simp add: DownloadFile_after_lookup[OF assms(1)] auth_check_def and_then_def Let_def)
    next
      case (Inr ci')
      with Some nr b have "auth_check env token disk True cryptoInfo w1 = (Return (Some ci'), ?w2)"
        by (simp add: auth_check_def Let_def)
      with assms(3) have "and_then (resolve_url env token fileId name mimeType ?w2)
             (\<lambda>fileUrl w3. fetch env name True (Some ci') fileUrl w3) = (r, w')"
        by (simp add: DownloadFile_after_lookup[OF assms(1)] and_then_def)
      from resolve_fetch_trace[OF this] obtain es where "trace w' = trace ?w2 @ es" by blast
      with Some b Inr show ?thesis by simp
    qed
  qed
qed

text \<open>
  The four branches, in an environment where no crypto info is ready: nil, neither
  password nor key, a password that \<^verbatim>\<open>GetCryptoInfo\<close> rejects, and a crypto info
  with a raw key.
\<close>

theorem auth_check_order_witness:
  "fst (DownloadFile never_ready_env ''tok'' ''f1'' None w0) =
     Fail (ErrorString ''file is encrypted and no any crypto cryptoInfo provided'') \<and>
   fst (DownloadFile never_ready_env ''tok'' ''f1'' (Some no_pass) w0) =
     Fail (ErrorString ''file is encrypted and no password or keys provided'') \<and>
   GetCryptoInfo never_ready_env ''tok'' ''d1'' (Password wrong_pass) =
     Inl (ErrorString ''failed to decrypt private key'') \<and>
   fst (DownloadFile never_ready_env ''tok'' ''f1'' (Some wrong_pass) w0) =
     Fail (WrapError ''failed to get crypto info: '' (ErrorString ''failed to decrypt private key'')) \<and>
   trace (snd (DownloadFile never_ready_env ''tok'' ''f1'' (Some wrong_pass) w0)) =
     trace (snd (file_lookup never_ready_env ''tok'' ''f1'' w0)) @ [GetCryptoInfoCall ''tok'' ''d1'' ''wrong''] \<and>
   fst (DownloadFile never_ready_env ''tok'' ''f1'' (Some demo_key) w0) =
     Fail (ErrorString ''file is encrypted and no any data provided'')"
proof -
  let ?env = never_ready_env
  have l1: "fst (file_lookup ?env ''tok'' ''f1'' w0) = Return (''report.pdf'', True, ''application/pdf'', ''d1'')"
    by (simp add: model_defs demo_defs never_ready_env_def)
  then have l: "file_lookup ?env ''tok'' ''f1'' w0 =
      (Return (''report.pdf'', True, ''application/pdf'', ''d1''), snd (file_lookup ?env ''tok'' ''f1'' w0))"
    by (simp add: prod_eq_iff)
  have run: "DownloadFile ?env ''tok'' ''f1'' c w0 =
      (fst (DownloadFile ?env ''tok'' ''f1'' c w0), snd (DownloadFile ?env ''tok'' ''f1'' c w0))" for c
    by simp
  have n1: "case None of None \<Rightarrow> True | Some ci \<Rightarrow> \<not> IsCryptoReady ?env ci" by simp
  have n2: "case Some c of None \<Rightarrow> True | Some ci \<Rightarrow> \<not> IsCryptoReady ?env ci" for c
    by (simp add: never_ready_env_def)
  have g: "GetCryptoInfo ?env ''tok'' ''d1'' (Password wrong_pass) = Inl (ErrorString ''failed to decrypt private key'')"
    by (simp add: never_ready_env_def wrong_pass_def demo_defs)
  have p: "Password wrong_pass = ''wrong''" "RawCryptoKey wrong_pass = []"
    "Password no_pass = []" "RawCryptoKey no_pass = []" "RawCryptoKey demo_key = ''KEY''"
    by (simp_all add: wrong_pass_def no_pass_def demo_defs)
  from auth_check_order[OF l n1 run[of None]]
  have a: "fst (DownloadFile ?env ''tok'' ''f1'' None w0) =
     Fail (ErrorString ''file is encrypted and no any crypto cryptoInfo provided'')" by simp
  from auth_check_order[OF l n2 run[of "Some no_pass"]] p
  have b: "fst (DownloadFile ?env ''tok'' ''f1'' (Some no_pass) w0) =
     Fail (ErrorString ''file is encrypted and no password or keys provided'')" by simp
  from auth_check_order[OF l n2 run[of "Some wrong_pass"]] p g
  have c: "fst (DownloadFile ?env ''tok'' ''f1'' (Some wrong_pass) w0) =
     Fail (WrapError ''failed to get crypto info: '' (ErrorString ''failed to decrypt private key'')) \<and>
     trace (snd (DownloadFile ?env ''tok'' ''f1'' (Some wrong_pass) w0)) =
     trace (snd (file_lookup ?env ''tok'' ''f1'' w0)) @ [GetCryptoInfoCall ''tok'' ''d1'' ''wrong'']" by simp
  from auth_check_order[OF l n2 run[of "Some demo_key"]] p
  have d: "fst (DownloadFile ?env ''tok'' ''f1'' (Some demo_key) w0) =
     Fail (ErrorString ''file is encrypted and no any data provided'')" by simp
  from a b c d g show ?thesis by blast
qed

subsection \<open>C5\<close>

text \<open>
  \<^bold>\<open>C5\<close>. For an encrypted file and a nil crypto info, \<^verbatim>\<open>DownloadFile\<close> returns the error
  "file is encrypted and no any crypto cryptoInfo provided" in the state the lookup
  left: the calls of the run are the one \<^verbatim>\<open>files.getById\<close> request, and the
  \<^verbatim>\<open>files.download\<close> request is never issued.
\<close>

theorem nil_crypto_info_fails_before_download_request:
  assumes "file_lookup env token fileId w = (Return (name, True, mimeType, disk), w1)"
  shows "DownloadFile env token fileId None w =
           (Fail (ErrorString ''file is encrypted and no any crypto cryptoInfo provided''), w1) \<and>
         (\<exists>body. jsonToReader env (file_request ''files.getById'' token fileId) = Some body \<and>
                 trace w1 = trace w @ [ApiPost body])"
  using assms file_lookup_Return[OF assms]
  by (simp add: DownloadFile_def and_then_def auth_check_def)

text \<open>
  The run on the encrypted file \<^verbatim>\<open>f1\<close> with a nil crypto info: one request, then
  the error.
\<close>

theorem nil_crypto_info_witness:
  "fst (file_lookup (demo_env (file_meta True)) ''tok'' ''f1'' w0) =
     Return (''report.pdf'', True, ''application/pdf'', ''d1'') \<and>
   fst (DownloadFile (demo_env (file_meta True)) ''tok'' ''f1'' None w0) =
     Fail (ErrorString ''file is encrypted and no any crypto cryptoInfo provided'') \<and>
   trace (snd (DownloadFile (demo_env (file_meta True)) ''tok'' ''f1'' None w0)) =
     [ApiPost ''files.getById:f1:tok'']"
proof -
  have l1: "fst (file_lookup (demo_env (file_meta True)) ''tok'' ''f1'' w0) =
      Return (''report.pdf'', True, ''application/pdf'', ''d1'')"
    by (simp add: model_defs demo_defs)
  then have l: "file_lookup (demo_env (file_meta True)) ''tok'' ''f1'' w0 =
      (Return (''report.pdf'', True, ''application/pdf'', ''d1''),
       snd (file_lookup (demo_env (file_meta True)) ''tok'' ''f1'' w0))"
    by (simp add: prod_eq_iff)
  have m: "jsonToReader (demo_env (file_meta True)) (file_request ''files.getById'' ''tok'' ''f1'') =
      Some ''files.getById:f1:tok''"
    by (simp add: model_defs demo_defs)
  from nil_crypto_info_fails_before_download_request[OF l] m l1 show ?thesis by (auto simp: w0_def)
qed

subsection \<open>C6\<close>

text \<open>
  \<^bold>\<open>C6\<close>. The claim is that with a crypto info that holds a wrong passphrase the run
  fails, performs the ciphertext fetch, and writes no plaintext. With a crypto info
  that holds only the wrong passphrase, \<^verbatim>\<open>GetCryptoInfo\<close> fails in lines 195-200,
  before the request of the content URL: the calls of the run are the metadata request
  and \<^verbatim>\<open>GetCryptoInfo\<close>, and there is no \<^verbatim>\<open>http.Get\<close>.
\<close>

theorem wrong_passphrase_fetch_counterexample:
  "fst (DownloadFile (demo_env (file_meta True)) ''tok'' ''f1'' (Some wrong_pass) w0) =
     Fail (WrapError ''failed to get crypto info: '' (ErrorString ''failed to decrypt private key'')) \<and>
   trace (snd (DownloadFile (demo_env (file_meta True)) ''tok'' ''f1'' (Some wrong_pass) w0)) =
     [ApiPost ''files.getById:f1:tok'', GetCryptoInfoCall ''tok'' ''d1'' ''wrong'']"
  by (simp add: model_defs demo_defs wrong_pass_def)

text \<open>
  \<^bold>\<open>C6\<close>, as amended. For an encrypted file and a crypto info with a wrong passphrase
  the run fails and writes nothing to the destination writer. When the crypto info is
  not ready and holds only the passphrase, and \<^verbatim>\<open>GetCryptoInfo\<close> fails with it, the run
  returns that error, wrapped, and \<^verbatim>\<open>GetCryptoInfo\<close> is its last call: neither the URL
  request nor the fetch is made. When the crypto info is ready and \<^verbatim>\<open>GetKeyRings\<close> fails
  with its passphrase, the run does not return a result, and when the URL request
  returns and the fetch answers with status 200, the fetch has been made and the run
  returns the error of \<^verbatim>\<open>GetKeyRings\<close>.
\<close>

theorem wrong_passphrase_no_plaintext:
  assumes "file_lookup env token fileId w = (Return (name, True, mimeType, disk), w1)"
      and "DownloadFile env token fileId (Some ci) w = (r, w')"
  shows "(\<not> IsCryptoReady env ci \<and> Password ci \<noteq> [] \<and> RawCryptoKey ci = [] \<and>
          GetCryptoInfo env token disk (Password ci) = Inl err \<longrightarrow>
            r = Fail (WrapError ''failed to get crypto info: '' err) \<and>
            written w' = written w \<and>
            trace w' = trace w1 @ [GetCryptoInfoCall token disk (Password ci)]) \<and>
         (IsCryptoReady env ci \<and>
          GetKeyRings env (PublicKey ci) (RawCryptoKey ci) (Password ci) = Inl err \<longrightarrow>
            written w' = written w \<and> (\<forall>x. r \<noteq> Return x) \<and>
            (\<forall>fileUrl w2 resp.
               resolve_url env token fileId name mimeType w1 = (Return fileUrl, w2) \<and>
               http_Get env fileUrl = Inr resp \<and> StatusCode resp = 200 \<longrightarrow>
               r = Fail err \<and> (\<exists>es. trace w' = trace w2 @ HttpGet fileUrl # es)))"
proof (intro conjI impI)
  note wr = file_lookup_Return[OF assms(1)]
  {
    assume "\<not> IsCryptoReady env ci \<and> Password ci \<noteq> [] \<and> RawCryptoKey ci = [] \<and>
          GetCryptoInfo env token disk (Password ci) = Inl err"
    with assms(2) wr
    show "r = Fail (WrapError ''failed to get crypto info: '' err)"
      and "written w' = written w"
      and "trace w' = trace w1 @ [GetCryptoInfoCall token disk (Password ci)]"
      by (auto simp add: DownloadFile_after_lookup[OF assms(1)] auth_check_def and_then_def Let_def)
  }
  assume B: "IsCryptoReady env ci \<and>
          GetKeyRings env (PublicKey ci) (RawCryptoKey ci) (Password ci) = Inl err"
  then have "auth_check env token disk True (Some ci) w1 = (Return (Some ci), w1)"
    by (simp add: auth_check_def)
  with assms(2) have run: "and_then (resolve_url env token fileId name mimeType w1)
             (\<lambda>fileUrl w3. fetch env name True (Some ci) fileUrl w3) = (r, w')"
    by (simp add: DownloadFile_after_lookup[OF assms(1)] and_then_def)
  obtain r3 w3 where u: "resolve_url env token fileId name mimeType w1 = (r3, w3)"
    by (cases "resolve_url env token fileId name mimeType w1")
  from resolve_url_world[OF u] wr have wr3: "written w3 = written w" by simp
  have "written w' = written w \<and> (\<forall>x. r \<noteq> Return x) \<and>
        (\<forall>fileUrl w2 resp.
               resolve_url env token fileId name mimeType w1 = (Return fileUrl, w2) \<and>
               http_Get env fileUrl = Inr resp \<and> StatusCode resp = 200 \<longrightarrow>
               r = Fail err \<and> (\<exists>es. trace w' = trace w2 @ HttpGet fileUrl # es))"
  proof (cases r3)
    case (Return fileUrl)
    with run u have "fetch env name True (Some ci) fileUrl w3 = (r, w')"
      by (simp add: and_then_def)
    from fetch_keyring_failure[OF _ this] B u Return wr3 show ?thesis by auto
  next
    case (Fail e)
    with run u have "r = Fail e" "w' = w3" by (simp_all add: and_then_def)
    with u Fail wr3 show ?thesis by auto
  next
    case Panic
    with run u have "r = Panic" "w' = w3" by (simp_all add: and_then_def)
    with u Panic wr3 show ?thesis by auto
  qed
  then show "written w' = written w" and "\<forall>x. r \<noteq> Return x"
    and "\<forall>fileUrl w2 resp.
               resolve_url env token fileId name mimeType w1 = (Return fileUrl, w2) \<and>
               http_Get env fileUrl = Inr resp \<and> StatusCode resp = 200 \<longrightarrow>
               r = Fail err \<and> (\<exists>es. trace w' = trace w2 @ HttpGet fileUrl # es)"
    by blast+
qed

text \<open>
  Both cases on the encrypted file \<^verbatim>\<open>f1\<close>: the passphrase \<^verbatim>\<open>wrong\<close> alone, and the
  passphrase \<^verbatim>\<open>wrong\<close> with the raw key.
\<close>

theorem wrong_passphrase_no_plaintext_witness:
  "fst (file_lookup (demo_env (file_meta True)) ''tok'' ''f1'' w0) =
     Return (''report.pdf'', True, ''application/pdf'', ''d1'') \<and>
   \<not> IsCryptoReady (demo_env (file_meta True)) wrong_pass \<and>
   Password wrong_pass \<noteq> [] \<and> RawCryptoKey wrong_pass = [] \<and>
   GetCryptoInfo (demo_env (file_meta True)) ''tok'' ''d1'' (Password wrong_pass) =
     Inl (ErrorString ''failed to decrypt private key'') \<and>
   fst (DownloadFile (demo_env (file_meta True)) ''tok'' ''f1'' (Some wrong_pass) w0) =
     Fail (WrapError ''failed to get crypto info: '' (ErrorString ''failed to decrypt private key'')) \<and>
   written (snd (DownloadFile (demo_env (file_meta True)) ''tok'' ''f1'' (Some wrong_pass) w0)) = written w0 \<and>
   IsCryptoReady (demo_env (file_meta True)) wrong_pass_ready \<and>
   GetKeyRings (demo_env (file_meta True)) (PublicKey wrong_pass_ready) (RawCryptoKey wrong_pass_ready)
     (Password wrong_pass_ready) = Inl (ErrorString ''failed to decrypt private key'') \<and>
   fst (resolve_url (demo_env (file_meta True)) ''tok'' ''f1'' ''report.pdf'' ''application/pdf''
          (snd (file_lookup (demo_env (file_meta True)) ''tok'' ''f1'' w0))) = Return ''https://cdn/f1'' \<and>
   fst (DownloadFile (demo_env (file_meta True)) ''tok'' ''f1'' (Some wrong_pass_ready) w0) =
     Fail (ErrorString ''failed to decrypt private key'') \<and>
   written (snd (DownloadFile (demo_env (file_meta True)) ''tok'' ''f1'' (Some wrong_pass_ready) w0)) = written w0"
proof -
  let ?env = "demo_env (file_meta True)"
  let ?e = "ErrorString ''failed to decrypt private key''"
  let ?w1 = "snd (file_lookup ?env ''tok'' ''f1'' w0)"
  have l1: "fst (file_lookup ?env ''tok'' ''f1'' w0) = Return (''report.pdf'', True, ''application/pdf'', ''d1'')"
    by (simp add: model_defs demo_defs)
  then have l: "file_lookup ?env ''tok'' ''f1'' w0 =
      (Return (''report.pdf'', True, ''application/pdf'', ''d1''), ?w1)"
    by (simp add: prod_eq_iff)
  have run: "DownloadFile ?env ''tok'' ''f1'' c w0 =
      (fst (DownloadFile ?env ''tok'' ''f1'' c w0), snd (DownloadFile ?env ''tok'' ''f1'' c w0))" for c
    by simp
  have A: "\<not> IsCryptoReady ?env wrong_pass \<and> Password wrong_pass \<noteq> [] \<and> RawCryptoKey wrong_pass = [] \<and>
           GetCryptoInfo ?env ''tok'' ''d1'' (Password wrong_pass) = Inl ?e"
    by (simp add: demo_defs wrong_pass_def wrong_pass_ready_def)
  have B: "IsCryptoReady ?env wrong_pass_ready \<and>
           GetKeyRings ?env (PublicKey wrong_pass_ready) (RawCryptoKey wrong_pass_ready)
             (Password wrong_pass_ready) = Inl ?e"
    by (simp add: demo_defs wrong_pass_def wrong_pass_ready_def)
  have u1: "fst (resolve_url ?env ''tok'' ''f1'' ''report.pdf'' ''application/pdf'' ?w1) = Return ''https://cdn/f1''"
    by (simp add: model_defs demo_defs)
  then have u: "resolve_url ?env ''tok'' ''f1'' ''report.pdf'' ''application/pdf'' ?w1 =
      (Return ''https://cdn/f1'',
       snd (resolve_url ?env ''tok'' ''f1'' ''report.pdf'' ''application/pdf'' ?w1))"
    by (simp add: prod_eq_iff)
  have g: "http_Get ?env ''https://cdn/f1'' =
      Inr \<lparr>Status = ''200 OK'', StatusCode = 200, Body = ''abc'', BodyErr = None\<rparr>"
    by (simp add: demo_defs)
  from wrong_passphrase_no_plaintext[OF l run[of "Some wrong_pass"], of ?e] A
  have a: "fst (DownloadFile ?env ''tok'' ''f1'' (Some wrong_pass) w0) =
             Fail (WrapError ''failed to get crypto info: '' ?e) \<and>
           written (snd (DownloadFile ?env ''tok'' ''f1'' (Some wrong_pass) w0)) = written w0"
    by blast
  from wrong_passphrase_no_plaintext[OF l run[of "Some wrong_pass_ready"], of ?e] B
  have b: "written (snd (DownloadFile ?env ''tok'' ''f1'' (Some wrong_pass_ready) w0)) = written w0"
    and b': "\<forall>fileUrl w2 resp.
               resolve_url ?env ''tok'' ''f1'' ''report.pdf'' ''application/pdf'' ?w1 = (Return fileUrl, w2) \<and>
               http_Get ?env fileUrl = Inr resp \<and> StatusCode resp = 200 \<longrightarrow>
               fst (DownloadFile ?env ''tok'' ''f1'' (Some wrong_pass_ready) w0) = Fail ?e \<and>
               (\<exists>es. trace (snd (DownloadFile ?env ''tok'' ''f1'' (Some wrong_pass_ready) w0)) =
                      trace w2 @ HttpGet fileUrl # es)"
    by blast+
  have s: "StatusCode \<lparr>Status = ''200 OK'', StatusCode = 200, Body = ''abc'', BodyErr = None\<rparr> = 200"
    by simp
  from b'[rule_format, OF conjI[OF u conjI[OF g s]]]
  have c: "fst (DownloadFile ?env ''tok'' ''f1'' (Some wrong_pass_ready) w0) = Fail ?e"
    by blast
  from l1 A a B u1 b c show ?thesis by blast
qed

subsection \<open>C7\<close>

text \<open>
  \<^bold>\<open>C7\<close>. The claim is that a metadata response of an unexpected shape makes the lookup
  return an error instead of crashing. The source checks the presence and the type of
  \<^verbatim>\<open>list\<close> with two-value assertions (lines 167-175), as it does for \<^verbatim>\<open>url\<close> at line
  216, but reads the first element and its fields with single-value assertions (lines
  180-185), which panic. Two responses with \<^verbatim>\<open>count\<close> 1: a list whose element is a
  string, and a list whose element is an object without \<^verbatim>\<open>mime\<close>. Both runs panic.
\<close>

theorem malformed_metadata_panics:
  "fst (DownloadFile (demo_env [''count'' \<mapsto> JNum 1, ''list'' \<mapsto> JArr [JStr ''report.pdf'']])
          ''tok'' ''f1'' None w0) = Panic \<and>
   fst (DownloadFile (demo_env [''count'' \<mapsto> JNum 1,
                                ''list'' \<mapsto> JArr [JObj [''name'' \<mapsto> JStr ''report.pdf'',
                                                       ''encrypted'' \<mapsto> JBool False,
                                                       ''disk'' \<mapsto> JStr ''d1'']]])
          ''tok'' ''f1'' None w0) = Panic"
  by (simp add: model_defs demo_defs)

subsection \<open>C8\<close>

text \<open>
  \<^bold>\<open>C8\<close>. When the metadata request is answered by a response that is not an API error
  (error code 0) and that reports \<^verbatim>\<open>count\<close> 0 or an empty \<^verbatim>\<open>list\<close>, \<^verbatim>\<open>DownloadFile\<close>
  returns the error "file not found or you have not access to it", the calls of the
  run are the one metadata request, and nothing is written.
\<close>

theorem not_found_no_further_calls:
  assumes "fileId \<noteq> []"
      and "jsonToReader env (file_request ''files.getById'' token fileId) = Some body"
      and "client_Do env body = Inr raw"
      and "json_Decode env raw = Inr filesList"
      and "Error_Code filesList = 0"
      and "Result filesList ''count'' = Some (JNum 0) \<or> Result filesList ''list'' = Some (JArr [])"
      and "DownloadFile env token fileId cryptoInfo w = (r, w')"
  shows "r = Fail (ErrorString ''file not found or you have not access to it'') \<and>
         trace w' = trace w @ [ApiPost body] \<and> written w' = written w"
proof -
  obtain wa where a: "ApiRequest env token ''files.getById'' (Some (next_ref w))
          (w\<lparr>heap := (heap w)(next_ref w := [''file'' \<mapsto> JStr fileId]), next_ref := Suc (next_ref w)\<rparr>) =
        send_request env (file_request ''files.getById'' token fileId) wa"
     and wa: "trace wa = trace w" "written wa = written w"
    using ApiRequest_file by blast
  from assms(2-4) have s: "send_request env (file_request ''files.getById'' token fileId) wa =
      (Return filesList, wa\<lparr>trace := trace wa @ [ApiPost body]\<rparr>)"
    by (simp add: send_request_def)
  from assms(6) have "file_info (Result filesList) = Fail (ErrorString ''file not found or you have not access to it'')"
    by (auto simp: file_info_def split: option.splits json.splits)
  with assms(1,5,7) a s wa show ?thesis
    by (auto simp: DownloadFile_def file_lookup_def make_map_def and_then_def)
qed

text \<open>
  The run where the server answers \<^verbatim>\<open>{"count": 0, "list": []}\<close>.
\<close>

theorem not_found_witness:
  "fst (DownloadFile (demo_env [''count'' \<mapsto> JNum 0, ''list'' \<mapsto> JArr []]) ''tok'' ''f1'' (Some demo_key) w0) =
     Fail (ErrorString ''file not found or you have not access to it'') \<and>
   trace (snd (DownloadFile (demo_env [''count'' \<mapsto> JNum 0, ''list'' \<mapsto> JArr []]) ''tok'' ''f1'' (Some demo_key) w0)) =
     [ApiPost ''files.getById:f1:tok'']"
proof -
  let ?env = "demo_env [''count'' \<mapsto> JNum 0, ''list'' \<mapsto> JArr []]"
  let ?run = "DownloadFile ?env ''tok'' ''f1'' (Some demo_key) w0"
  have 1: "''f1'' \<noteq> []" by simp
  have 2: "jsonToReader ?env (file_request ''files.getById'' ''tok'' ''f1'') = Some ''files.getById:f1:tok''"
    by (simp add: model_defs demo_defs)
  have 3: "client_Do ?env ''files.getById:f1:tok'' = Inr ''files.getById:f1:tok''"
    by (simp add: demo_defs)
  have 4: "json_Decode ?env ''files.getById:f1:tok'' = Inr (ok_reply [''count'' \<mapsto> JNum 0, ''list'' \<mapsto> JArr []])"
    by (simp add: demo_defs)
  have 5: "Error_Code (ok_reply [''count'' \<mapsto> JNum 0, ''list'' \<mapsto> JArr []]) = 0"
    by (simp add: ok_reply_def)
  have 6: "Result (ok_reply [''count'' \<mapsto> JNum 0, ''list'' \<mapsto> JArr []]) ''count'' = Some (JNum 0) \<or>
           Result (ok_reply [''count'' \<mapsto> JNum 0, ''list'' \<mapsto> JArr []]) ''list'' = Some (JArr [])"
    by (simp add: ok_reply_def)
  have r: "?run = (fst ?run, snd ?run)" by simp
  from not_found_no_further_calls[OF 1 2 3 4 5 6 r] show ?thesis by (simp add: w0_def)
qed

subsection \<open>C9\<close>

text \<open>
  \<^bold>\<open>C9\<close>. For a file whose metadata marks it unencrypted: when \<^verbatim>\<open>DownloadFile\<close> returns
  a result, the file name is the name of the metadata, the bytes written are exactly
  the bytes of the body that \<^verbatim>\<open>http.Get\<close> returned for the content URL, and the byte
  count is their number. The content URL is the one the URL request of the run
  returned after the lookup, which is the \<^verbatim>\<open>url\<close> of the reply to the \<^verbatim>\<open>files.download\<close>
  request for this token and file; it is fetched in the run, and no other URL is. In
  every run, the bytes written are a prefix of that body, or none.
\<close>

theorem unencrypted_passthrough:
  assumes "file_lookup env token fileId w = (Return (name, False, mimeType, disk), w1)"
      and "DownloadFile env token fileId cryptoInfo w = (r, w')"
  shows "\<exists>es. trace w' = trace w @ es \<and>
           (written w' = written w \<or>
            (\<exists>fileUrl w2 body raw downloadRequest resp k.
                resolve_url env token fileId name mimeType w1 = (Return fileUrl, w2) \<and>
                jsonToReader env (file_request ''files.download'' token fileId) = Some body \<and>
                client_Do env body = Inr raw \<and> json_Decode env raw = Inr downloadRequest \<and>
                Result downloadRequest ''url'' = Some (JStr fileUrl) \<and>
                HttpGet fileUrl \<in> set es \<and> (\<forall>u. HttpGet u \<in> set es \<longrightarrow> u = fileUrl) \<and>
                http_Get env fileUrl = Inr resp \<and>
                written w' = written w @ take k (Body resp))) \<and>
           (\<forall>fileName numBytes. r = Return (fileName, numBytes) \<longrightarrow>
              fileName = name \<and>
              (\<exists>fileUrl w2 body raw downloadRequest resp.
                  resolve_url env token fileId name mimeType w1 = (Return fileUrl, w2) \<and>
                  jsonToReader env (file_request ''files.download'' token fileId) = Some body \<and>
                  client_Do env body = Inr raw \<and> json_Decode env raw = Inr downloadRequest \<and>
                  Result downloadRequest ''url'' = Some (JStr fileUrl) \<and>
                  HttpGet fileUrl \<in> set es \<and> (\<forall>u. HttpGet u \<in> set es \<longrightarrow> u = fileUrl) \<and>
                  http_Get env fileUrl = Inr resp \<and>
                  written w' = written w @ Body resp \<and> numBytes = int (length (Body resp))))"
  using DownloadFile_stages[OF assms(2)]
proof (elim disjE exE conjE)
  fix es
  assume "\<forall>x. r \<noteq> Return x" "written w' = written w" "trace w' = trace w @ es"
  then show ?thesis by (intro exI[of _ es]) simp
next
  fix name' encrypted mimeType' disk' w1' cryptoInfo' w2 fileUrl w3 es
  assume l: "file_lookup env token fileId w = (Return (name', encrypted, mimeType', disk'), w1')"
    and a: "auth_check env token disk' encrypted cryptoInfo w1' = (Return cryptoInfo', w2)"
    and u: "resolve_url env token fileId name' mimeType' w2 = (Return fileUrl, w3)"
    and f: "fetch env name' encrypted cryptoInfo' fileUrl w3 = (r, w')"
    and w3: "written w3 = written w" "trace w3 = trace w @ es"
    and es: "\<forall>ev \<in> set es. setup_event env token fileId ev"
  from l assms(1) have eq: "\<not> encrypted" "name' = name" "mimeType' = mimeType" "w1' = w1" by simp_all
  from a eq have "w2 = w1" by (simp add: auth_check_def)
  with u eq have u': "resolve_url env token fileId name mimeType w1 = (Return fileUrl, w3)" by simp
  from resolve_url_Return[OF u'] obtain body raw downloadRequest where
    rep: "jsonToReader env (file_request ''files.download'' token fileId) = Some body"
      "client_Do env body = Inr raw" "json_Decode env raw = Inr downloadRequest"
      "Result downloadRequest ''url'' = Some (JStr fileUrl)"
    by blast
  from f eq have f': "fetch env name False cryptoInfo' fileUrl w3 = (r, w')" by simp
  from fetch_unencrypted[OF f'] obtain es' where es': "trace w' = trace w3 @ HttpGet fileUrl # es'"
    "written w' = written w3 \<or>
       (\<exists>resp. http_Get env fileUrl = Inr resp \<and>
          written w' = written w3 @
            take (case writer_room env of None \<Rightarrow> length (Body resp)
                  | Some room \<Rightarrow> min room (length (Body resp))) (Body resp))"
    "\<forall>fileName numBytes. r = Return (fileName, numBytes) \<longrightarrow>
        fileName = name \<and>
        (\<exists>resp. http_Get env fileUrl = Inr resp \<and> written w' = written w3 @ Body resp \<and>
                numBytes = int (length (Body resp)))"
    by blast
  from fetch_single_get[OF f'] es'(1) have ng: "\<forall>u. HttpGet u \<notin> set es'" by auto
  let ?es = "es @ HttpGet fileUrl # es'"
  have h: "HttpGet fileUrl \<in> set ?es" by simp
  have only: "\<forall>u. HttpGet u \<in> set ?es \<longrightarrow> u = fileUrl"
    using es ng by (auto simp: setup_event_def)
  from es'(1) w3 have t: "trace w' = trace w @ ?es" by simp
  from es'(2) have A: "written w' = written w \<or>
            (\<exists>fileUrl w2 body raw downloadRequest resp k.
                resolve_url env token fileId name mimeType w1 = (Return fileUrl, w2) \<and>
                jsonToReader env (file_request ''files.download'' token fileId) = Some body \<and>
                client_Do env body = Inr raw \<and> json_Decode env raw = Inr downloadRequest \<and>
                Result downloadRequest ''url'' = Some (JStr fileUrl) \<and>
                HttpGet fileUrl \<in> set ?es \<and> (\<forall>u. HttpGet u \<in> set ?es \<longrightarrow> u = fileUrl) \<and>
                http_Get env fileUrl = Inr resp \<and>
                written w' = written w @ take k (Body resp))"
  proof
    assume "written w' = written w3"
    with w3(1) show ?thesis by simp
  next
    assume "\<exists>resp. http_Get env fileUrl = Inr resp \<and>
          written w' = written w3 @
            take (case writer_room env of None \<Rightarrow> length (Body resp)
                  | Some room \<Rightarrow> min room (length (Body resp))) (Body resp)"
    then obtain resp where g: "http_Get env fileUrl = Inr resp"
      and wr: "written w' = written w3 @
            take (case writer_room env of None \<Rightarrow> length (Body resp)
                  | Some room \<Rightarrow> min room (length (Body resp))) (Body resp)"
      by blast
    from wr w3(1) have wr': "written w' = written w @
            take (case writer_room env of None \<Rightarrow> length (Body resp)
                  | Some room \<Rightarrow> min room (length (Body resp))) (Body resp)" by simp
    show ?thesis
      by (intro disjI2 exI[of _ fileUrl] exI[of _ w3] exI[of _ body] exI[of _ raw]
          exI[of _ downloadRequest] exI[of _ resp]
          exI[of _ "case writer_room env of None \<Rightarrow> length (Body resp)
                  | Some room \<Rightarrow> min room (length (Body resp))"] conjI)
         (rule u' rep h only g wr')+
  qed
  have B: "\<forall>fileName numBytes. r = Return (fileName, numBytes) \<longrightarrow>
              fileName = name \<and>
              (\<exists>fileUrl w2 body raw downloadRequest resp.
                  resolve_url env token fileId name mimeType w1 = (Return fileUrl, w2) \<and>
                  jsonToReader env (file_request ''files.download'' token fileId) = Some body \<and>
                  client_Do env body = Inr raw \<and> json_Decode env raw = Inr downloadRequest \<and>
                  Result downloadRequest ''url'' = Some (JStr fileUrl) \<and>
                  HttpGet fileUrl \<in> set ?es \<and> (\<forall>u. HttpGet u \<in> set ?es \<longrightarrow> u = fileUrl) \<and>
                  http_Get env fileUrl = Inr resp \<and>
                  written w' = written w @ Body resp \<and> numBytes = int (length (Body resp)))"
  proof (intro allI impI)
    fix fileName numBytes
    assume "r = Return (fileName, numBytes)"
    with es'(3) obtain resp where n: "fileName = name" and g: "http_Get env fileUrl = Inr resp"
      and wr: "written w' = written w3 @ Body resp" and nb: "numBytes = int (length (Body resp))"
      by blast
    from wr w3(1) have wr': "written w' = written w @ Body resp" by simp
    show "fileName = name \<and>
              (\<exists>fileUrl w2 body raw downloadRequest resp.
                  resolve_url env token fileId name mimeType w1 = (Return fileUrl, w2) \<and>
                  jsonToReader env (file_request ''files.download'' token fileId) = Some body \<and>
                  client_Do env body = Inr raw \<and> json_Decode env raw = Inr downloadRequest \<and>
                  Result downloadRequest ''url'' = Some (JStr fileUrl) \<and>
                  HttpGet fileUrl \<in> set ?es \<and> (\<forall>u. HttpGet u \<in> set ?es \<longrightarrow> u = fileUrl) \<and>
                  http_Get env fileUrl = Inr resp \<and>
                  written w' = written w @ Body resp \<and> numBytes = int (length (Body resp)))"
      by (intro conjI exI[of _ fileUrl] exI[of _ w3] exI[of _ body] exI[of _ raw]
          exI[of _ downloadRequest] exI[of _ resp])
         (rule n u' rep h only g wr' nb)+
  qed
  from t A B show ?thesis by (intro exI[of _ ?es] conjI)
qed

text \<open>
  The run on the unencrypted file \<^verbatim>\<open>f1\<close>, where the URL of the reply yields \<^verbatim>\<open>abc\<close>
  and every other URL, the empty one included, yields \<^verbatim>\<open>junk\<close>: the URL of the reply
  is fetched, the empty URL is not, \<^verbatim>\<open>abc\<close> is written and the count is 3.
\<close>

theorem unencrypted_passthrough_witness:
  "fst (file_lookup two_url_env ''tok'' ''f1'' w0) =
     Return (''report.pdf'', False, ''application/pdf'', ''d1'') \<and>
   fst (resolve_url two_url_env ''tok'' ''f1'' ''report.pdf'' ''application/pdf''
          (snd (file_lookup two_url_env ''tok'' ''f1'' w0))) = Return ''https://cdn/f1'' \<and>
   http_Get two_url_env ''https://cdn/f1'' =
     Inr \<lparr>Status = ''200 OK'', StatusCode = 200, Body = ''abc'', BodyErr = None\<rparr> \<and>
   http_Get two_url_env [] =
     Inr \<lparr>Status = ''200 OK'', StatusCode = 200, Body = ''junk'', BodyErr = None\<rparr> \<and>
   fst (DownloadFile two_url_env ''tok'' ''f1'' None w0) = Return (''report.pdf'', 3) \<and>
   HttpGet ''https://cdn/f1'' \<in> set (trace (snd (DownloadFile two_url_env ''tok'' ''f1'' None w0))) \<and>
   HttpGet [] \<notin> set (trace (snd (DownloadFile two_url_env ''tok'' ''f1'' None w0))) \<and>
   written (snd (DownloadFile two_url_env ''tok'' ''f1'' None w0)) = ''abc''"
proof -
  let ?env = two_url_env
  let ?run = "DownloadFile ?env ''tok'' ''f1'' None w0"
  let ?w1 = "snd (file_lookup ?env ''tok'' ''f1'' w0)"
  let ?abc = "\<lparr>Status = ''200 OK'', StatusCode = 200, Body = ''abc'', BodyErr = None\<rparr>"
  have l1: "fst (file_lookup ?env ''tok'' ''f1'' w0) = Return (''report.pdf'', False, ''application/pdf'', ''d1'')"
    by (simp add: model_defs demo_defs two_url_env_def)
  then have l: "file_lookup ?env ''tok'' ''f1'' w0 =
      (Return (''report.pdf'', False, ''application/pdf'', ''d1''), ?w1)"
    by (simp add: prod_eq_iff)
  have u1: "fst (resolve_url ?env ''tok'' ''f1'' ''report.pdf'' ''application/pdf'' ?w1) = Return ''https://cdn/f1''"
    by (simp add: model_defs demo_defs two_url_env_def)
  have g1: "http_Get ?env ''https://cdn/f1'' = Inr ?abc"
    by (simp add: demo_defs two_url_env_def)
  have g2: "http_Get ?env [] = Inr \<lparr>Status = ''200 OK'', StatusCode = 200, Body = ''junk'', BodyErr = None\<rparr>"
    by (simp add: demo_defs two_url_env_def)
  have r1: "fst ?run = Return (''report.pdf'', 3)"
    by (simp add: model_defs demo_defs two_url_env_def)
  have r: "?run = (fst ?run, snd ?run)" by simp
  have t0: "trace w0 = []" "written w0 = []" by (simp_all add: w0_def)
  from unencrypted_passthrough[OF l r] obtain es where es: "trace (snd ?run) = trace w0 @ es"
    "\<forall>fileName numBytes. fst ?run = Return (fileName, numBytes) \<longrightarrow>
              fileName = ''report.pdf'' \<and>
              (\<exists>fileUrl w2 body raw downloadRequest resp.
                  resolve_url ?env ''tok'' ''f1'' ''report.pdf'' ''application/pdf'' ?w1 = (Return fileUrl, w2) \<and>
                  jsonToReader ?env (file_request ''files.download'' ''tok'' ''f1'') = Some body \<and>
                  client_Do ?env body = Inr raw \<and> json_Decode ?env raw = Inr downloadRequest \<and>
                  Result downloadRequest ''url'' = Some (JStr fileUrl) \<and>
                  HttpGet fileUrl \<in> set es \<and> (\<forall>u. HttpGet u \<in> set es \<longrightarrow> u = fileUrl) \<and>
                  http_Get ?env fileUrl = Inr resp \<and>
                  written (snd ?run) = written w0 @ Body resp \<and> numBytes = int (length (Body resp)))"
    by blast
  from es(2) r1 obtain fileUrl w2 resp where
    u: "resolve_url ?env ''tok'' ''f1'' ''report.pdf'' ''application/pdf'' ?w1 = (Return fileUrl, w2)"
    and h: "HttpGet fileUrl \<in> set es" and only: "\<forall>u. HttpGet u \<in> set es \<longrightarrow> u = fileUrl"
    and g: "http_Get ?env fileUrl = Inr resp"
    and wr: "written (snd ?run) = written w0 @ Body resp"
    by blast
  from u u1 have fu: "fileUrl = ''https://cdn/f1''" by simp
  with g g1 have "resp = ?abc" by simp
  with wr t0 have w: "written (snd ?run) = ''abc''" by simp
  from h fu es(1) t0 have h': "HttpGet ''https://cdn/f1'' \<in> set (trace (snd ?run))" by simp
  from only fu es(1) t0 have n': "HttpGet [] \<notin> set (trace (snd ?run))" by auto
  from l1 u1 g1 g2 r1 h' n' w show ?thesis by blast
qed

subsection \<open>C10\<close>

text \<open>
  \<^bold>\<open>C10\<close>. The claim is that the token of the params map wins over the token argument,
  that an absent token is inserted, that in both cases the caller's params map is
  mutated in place, and that a nil map is replaced by an empty one. When the map has a
  \<^verbatim>\<open>"token"\<close> key, line 51 skips the assignment: after the call with the token \<^verbatim>\<open>tok\<close>
  the store is the one before the call, the caller's map still being
  \<^verbatim>\<open>{"file": "f1", "token": "mine"}\<close>, and the request carries \<^verbatim>\<open>mine\<close>.
\<close>

theorem ApiRequest_token_present_counterexample:
  "heap (snd (ApiRequest (demo_env (file_meta False)) ''tok'' ''files.getById'' (Some 0) w_mine)) = heap w_mine \<and>
   trace (snd (ApiRequest (demo_env (file_meta False)) ''tok'' ''files.getById'' (Some 0) w_mine)) =
     [ApiPost ''files.getById:f1:mine'']"
  by (simp add: model_defs demo_defs w_mine_def)

text \<open>
  \<^bold>\<open>C10\<close>, as amended. If the caller's params map has a \<^verbatim>\<open>"token"\<close> key, the request
  is built from the map as it is, whatever the token argument, and no map of the store
  changes. If it has none, the token argument is stored under \<^verbatim>\<open>"token"\<close> in the
  caller's own map, which the caller sees changed after the call, and the request is
  built from the changed map. A nil params map is replaced by a new map that receives
  the token, and no map that existed before changes.
\<close>

theorem ApiRequest_token:
  "(\<forall>v. heap w a ''token'' = Some v \<longrightarrow>
      ApiRequest env token method (Some a) w = send_request env (rpc_request method (heap w a)) w \<and>
      heap (snd (ApiRequest env token method (Some a) w)) = heap w) \<and>
   (heap w a ''token'' = None \<longrightarrow>
      ApiRequest env token method (Some a) w =
        send_request env (rpc_request method ((heap w a)(''token'' \<mapsto> JStr token)))
          (w\<lparr>heap := (heap w)(a := (heap w a)(''token'' \<mapsto> JStr token))\<rparr>) \<and>
      heap (snd (ApiRequest env token method (Some a) w)) =
        (heap w)(a := (heap w a)(''token'' \<mapsto> JStr token))) \<and>
   ApiRequest env token method None w =
     send_request env (rpc_request method [''token'' \<mapsto> JStr token])
       (snd (make_map [''token'' \<mapsto> JStr token] w)) \<and>
   (\<forall>b. b \<noteq> next_ref w \<longrightarrow> heap (snd (ApiRequest env token method None w)) b = heap w b)"
proof -
  have h: "heap (snd (send_request env request w2)) = heap w2" for request w2
    using send_request_world(1)[of env request w2] by (cases "send_request env request w2") simp
  have eq: "w\<lparr>next_ref := n, heap := m\<rparr> = w\<lparr>heap := m, next_ref := n\<rparr>" for n m
    by (cases w) simp
  have nil: "ApiRequest env token method None w =
     send_request env (rpc_request method [''token'' \<mapsto> JStr token])
       (snd (make_map [''token'' \<mapsto> JStr token] w))"
    by (simp add: ApiRequest_def make_map_def eq)
  show ?thesis
    by (simp add: nil h) (simp add: ApiRequest_def make_map_def h)
qed

text \<open>
  A map with its own token, a map \<^verbatim>\<open>{"file": "f1"}\<close> without one, and a nil map.
\<close>

theorem ApiRequest_token_witness:
  "heap w_mine 0 ''token'' = Some (JStr ''mine'') \<and>
   heap (snd (ApiRequest (demo_env (file_meta False)) ''tok'' ''files.getById'' (Some 0) w_mine)) = heap w_mine \<and>
   heap (snd (make_map [''file'' \<mapsto> JStr ''f1''] w0)) 0 ''token'' = None \<and>
   heap (snd (ApiRequest (demo_env (file_meta False)) ''tok'' ''files.getById'' (Some 0)
                (snd (make_map [''file'' \<mapsto> JStr ''f1''] w0)))) 0 =
     [''file'' \<mapsto> JStr ''f1'', ''token'' \<mapsto> JStr ''tok''] \<and>
   heap (snd (ApiRequest (demo_env (file_meta False)) ''tok'' ''files.getById'' None w_mine)) 0 = heap w_mine 0"
proof -
  let ?env = "demo_env (file_meta False)"
  let ?w = "snd (make_map [''file'' \<mapsto> JStr ''f1''] w0)"
  have 1: "heap w_mine 0 ''token'' = Some (JStr ''mine'')" by (simp add: w_mine_def)
  have 2: "heap ?w 0 ''token'' = None" by (simp add: make_map_def w0_def)
  have 3: "heap ?w 0 = [''file'' \<mapsto> JStr ''f1'']" by (simp add: make_map_def w0_def)
  have 4: "(0::nat) \<noteq> next_ref w_mine" by (simp add: w_mine_def)
  from ApiRequest_token[of w_mine 0 ?env "''tok''" "''files.getById''"] 1 4
  have a: "heap (snd (ApiRequest ?env ''tok'' ''files.getById'' (Some 0) w_mine)) = heap w_mine"
    and c: "heap (snd (ApiRequest ?env ''tok'' ''files.getById'' None w_mine)) 0 = heap w_mine 0"
    by blast+
  from ApiRequest_token[of ?w 0 ?env "''tok''" "''files.getById''"] 2
  have "heap (snd (ApiRequest ?env ''tok'' ''files.getById'' (Some 0) ?w)) =
         (heap ?w)(0 := (heap ?w 0)(''token'' \<mapsto> JStr ''tok''))"
    by blast
  with 3 have b: "heap (snd (ApiRequest ?env ''tok'' ''files.getById'' (Some 0) ?w)) 0 =
      [''file'' \<mapsto> JStr ''f1'', ''token'' \<mapsto> JStr ''tok'']"
    by simp
  from 1 2 a b c show ?thesis by blast
qed

end
